theory Spec2Isabelle
  imports Main "HOL-Library.AList"
begin

section \<open>Python values, exceptions and classes\<close>

text \<open>
  The generic structured record that travels on the wire.  A Python \<open>dict\<close> is an
  association list in insertion order whose keys are kept distinct by
  \<open>AList.update\<close> (\<open>d[k] = v\<close>), read by \<open>map_of\<close> (\<open>d.get(k)\<close>) and shrunk by
  \<open>AList.delete\<close> (\<open>d.pop(k)\<close>).  A \<open>float\<close> is kept as its literal; nothing in
  \<open>efro.message\<close> computes with one.
\<close>

datatype json =
    JNull
  | JBool bool
  | JInt int
  | JFloat string
  | JStr string
  | JList "json list"
  | JDict "(string \<times> json) list"

text \<open>
  Exceptions as values.  \<open>CleanError\<close> and \<open>RemoteError\<close> (from \<open>efro.error\<close>) and the
  exceptions of user handlers carry \<open>str(exc)\<close>; the exceptions that \<open>efro.message\<close>
  raises itself are kept by class only.  Only subclasses of \<open>Exception\<close> are modelled,
  which are the ones that \<open>except Exception\<close> catches.
\<close>

datatype exn =
    CleanError string
  | RemoteError string
  | TypeError
  | RuntimeError
  | ValueError
  | AssertionError
  | KeyError
  | AttributeError
  | JSONDecodeError
  | OtherException string

fun is_CleanError :: "exn \<Rightarrow> bool" where
  "is_CleanError (CleanError s) = True"
| "is_CleanError _ = False"

text \<open>\<open>str(exc)\<close> for the exceptions that carry their text.\<close>

fun str_exn :: "exn \<Rightarrow> string" where
  "str_exn (CleanError s) = s"
| "str_exn (RemoteError s) = s"
| "str_exn (OtherException s) = s"
| "str_exn _ = []"

datatype ErrorType = OTHER | CLEAN

fun ErrorType_value :: "ErrorType \<Rightarrow> int" where
  "ErrorType_value OTHER = 0"
| "ErrorType_value CLEAN = 1"

text \<open>
  A class is the descriptor of what \<open>efro.message\<close> asks of it: \<open>__module__\<close>,
  \<open>__name__\<close>, its base classes, whether it went through \<open>@ioprepped\<close>, its dataclass
  fields, and its own \<open>get_response_types\<close> when it overrides the one of \<open>Message\<close>.
  Two classes are the same class when their descriptors are equal.

  The schema of an io-prepped dataclass is the list of its fields in declaration order,
  each with the in-memory name, the storage name given by \<open>IOAttrs\<close>, the annotated
  type and an optional default in stored form.  The annotated types nest: \<open>int\<close>,
  \<open>float\<close>, \<open>str\<close>, \<open>bool\<close>, an \<open>Enum\<close> (given by the values of its members),
  \<open>Optional[T]\<close>, \<open>List[T]\<close>, \<open>Dict[str, T]\<close> and another dataclass.
\<close>

datatype ftype =
    TInt
  | TFloat
  | TStr
  | TBool
  | TEnum "int list"
  | TOptional ftype
  | TList ftype
  | TDict ftype
  | TDataclass cls
and field =
  IOField (field_name: string) (storage_name: string) (field_type: ftype)
          (field_default: "json option")
and cls =
  Cls (cls_module: string) (cls_name: string) (cls_bases: "cls list")
      (cls_ioprepped: bool) (cls_fields: "field list")
      (cls_response_types: "cls list option")

text \<open>
  The values held by the fields of an instance.  A member of an \<open>Enum\<close> is given by its
  value, a \<open>float\<close> by its literal, and a nested dataclass instance by its class and
  the values of its fields under their in-memory names.
\<close>

datatype pyval =
    VNone
  | VBool bool
  | VInt int
  | VFloat string
  | VStr string
  | VEnum int
  | VList "pyval list"
  | VDict "(string \<times> pyval) list"
  | VObj cls "(string \<times> pyval) list"

fun issubclass :: "cls \<Rightarrow> cls \<Rightarrow> bool" where
  "issubclass (Cls m n bs io fs rts) d =
     (Cls m n bs io fs rts = d \<or> list_ex (\<lambda>b. issubclass b d) bs)"

definition is_ioprepped_dataclass :: "cls \<Rightarrow> bool" where
  "is_ioprepped_dataclass c = cls_ioprepped c"

definition Message :: cls where
  "Message = Cls ''efro.message'' ''Message'' [] False [] None"

definition Response :: cls where
  "Response = Cls ''efro.message'' ''Response'' [] False [] None"

definition ErrorResponse :: cls where
  "ErrorResponse = Cls ''efro.message'' ''ErrorResponse'' [Response] True
     [IOField ''error_message'' ''m'' TStr None,
      IOField ''error_type'' ''t'' (TEnum [0, 1]) None] None"

definition EmptyResponse :: cls where
  "EmptyResponse = Cls ''efro.message'' ''EmptyResponse'' [Response] True [] None"

definition NoneType :: cls where
  "NoneType = Cls ''builtins'' ''NoneType'' [] False [] None"

text \<open>\<open>Message.get_response_types\<close>: \<open>[EmptyResponse]\<close> unless the class overrides it.\<close>

definition get_response_types :: "cls \<Rightarrow> cls list" where
  "get_response_types c =
     (case cls_response_types c of None \<Rightarrow> [EmptyResponse] | Some rs \<Rightarrow> rs)"

text \<open>An instance: its class and the values of its fields, by in-memory name.\<close>

record obj =
  obj_type :: cls
  obj_fields :: "(string \<times> pyval) list"

definition isinstance :: "obj \<Rightarrow> cls \<Rightarrow> bool" where
  "isinstance x c = issubclass (obj_type x) c"

definition ErrorResponse_new :: "string \<Rightarrow> ErrorType \<Rightarrow> obj" where
  "ErrorResponse_new error_message error_type =
     \<lparr>obj_type = ErrorResponse,
      obj_fields = [(''error_message'', VStr error_message),
                    (''error_type'', VEnum (ErrorType_value error_type))]\<rparr>"

definition EmptyResponse_new :: obj where
  "EmptyResponse_new = \<lparr>obj_type = EmptyResponse, obj_fields = []\<rparr>"

section \<open>The libraries that \<open>efro.message\<close> calls\<close>

text \<open>
  Running a list of fallible steps in order: the first exception ends the run.
\<close>

fun collect :: "(exn + 'a) list \<Rightarrow> exn + 'a list" where
  "collect [] = Inr []"
| "collect (x # xs) =
     (case x of
        Inl e \<Rightarrow> Inl e
      | Inr v \<Rightarrow> (case collect xs of Inl e \<Rightarrow> Inl e | Inr vs \<Rightarrow> Inr (v # vs)))"

text \<open>
  Modelled from the spec: the serialisation of \<open>efro.dataclassio\<close>, which is not among
  the sources.  A value is serialised by its annotated type to a generic structured
  record, nested structures included: a list element by element, a dictionary value by
  value, \<open>None\<close> as \<open>null\<close>, an \<open>Enum\<close> member as its value, and a dataclass instance
  as the record of its fields in the order of the schema, keyed by storage name.  A
  value that does not fit its annotated type, or an instance that lacks a field, is
  refused.
\<close>

function value_to_json :: "ftype \<Rightarrow> pyval \<Rightarrow> exn + json" where
  "value_to_json TInt v = (case v of VInt i \<Rightarrow> Inr (JInt i) | _ \<Rightarrow> Inl TypeError)"
| "value_to_json TFloat v = (case v of VFloat s \<Rightarrow> Inr (JFloat s) | _ \<Rightarrow> Inl TypeError)"
| "value_to_json TStr v = (case v of VStr s \<Rightarrow> Inr (JStr s) | _ \<Rightarrow> Inl TypeError)"
| "value_to_json TBool v = (case v of VBool b \<Rightarrow> Inr (JBool b) | _ \<Rightarrow> Inl TypeError)"
| "value_to_json (TEnum members) v =
     (case v of
        VEnum i \<Rightarrow> if i \<in> set members then Inr (JInt i) else Inl TypeError
      | _ \<Rightarrow> Inl TypeError)"
| "value_to_json (TOptional t) v = (if v = VNone then Inr JNull else value_to_json t v)"
| "value_to_json (TList t) v =
     (case v of
        VList vs \<Rightarrow>
          (case collect (map (value_to_json t) vs) of
             Inl e \<Rightarrow> Inl e
           | Inr js \<Rightarrow> Inr (JList js))
      | _ \<Rightarrow> Inl TypeError)"
| "value_to_json (TDict t) v =
     (case v of
        VDict kvs \<Rightarrow>
          (case collect (map (\<lambda>kv. case value_to_json t (snd kv) of
                                       Inl e \<Rightarrow> Inl e
                                     | Inr j \<Rightarrow> Inr (fst kv, j)) kvs) of
             Inl e \<Rightarrow> Inl e
           | Inr d \<Rightarrow> Inr (JDict d))
      | _ \<Rightarrow> Inl TypeError)"
| "value_to_json (TDataclass c) v =
     (case v of
        VObj c' vals \<Rightarrow>
          if c' \<noteq> c then Inl TypeError
          else
            (case collect (map (\<lambda>f. case map_of vals (field_name f) of
                                     None \<Rightarrow> Inl AttributeError
                                   | Some x \<Rightarrow>
                                       (case value_to_json (field_type f) x of
                                          Inl e \<Rightarrow> Inl e
                                        | Inr j \<Rightarrow> Inr (storage_name f, j)))
                             (cls_fields c)) of
               Inl e \<Rightarrow> Inl e
             | Inr d \<Rightarrow> Inr (JDict d))
      | _ \<Rightarrow> Inl TypeError)"
  by pat_completeness auto
termination
proof -
  have field_smaller: "size (field_type f) < size c" if "f \<in> set (cls_fields c)"
    for f and c :: cls
  proof -
    from that have "size f \<le> size_list size (cls_fields c)"
      by (simp add: size_list_estimation')
    moreover have "size_list size (cls_fields c) < size c" by (cases c) simp
    moreover have "size (field_type f) < size f" by (cases f) simp
    ultimately show ?thesis by linarith
  qed
  then have field_le: "size (field_type f) \<le> size c" if "f \<in> set (cls_fields c)"
    for f and c :: cls
    using that by (simp add: less_imp_le)
  show ?thesis
    by (relation "measure (\<lambda>(t, v). size t)") (auto simp: field_le less_Suc_eq_le)
qed

text \<open>
  Modelled from the spec: the reconstruction of \<open>efro.dataclassio\<close>, which is not among
  the sources.  It is the inverse of the above: each field of the schema is read under
  its storage name, a missing field takes its declared default and fails the decode when
  it has none, a value that does not fit the annotated type fails the decode, and keys
  that the schema does not know are ignored.
\<close>

function value_from_json :: "ftype \<Rightarrow> json \<Rightarrow> exn + pyval" where
  "value_from_json TInt j = (case j of JInt i \<Rightarrow> Inr (VInt i) | _ \<Rightarrow> Inl TypeError)"
| "value_from_json TFloat j = (case j of JFloat s \<Rightarrow> Inr (VFloat s) | _ \<Rightarrow> Inl TypeError)"
| "value_from_json TStr j = (case j of JStr s \<Rightarrow> Inr (VStr s) | _ \<Rightarrow> Inl TypeError)"
| "value_from_json TBool j = (case j of JBool b \<Rightarrow> Inr (VBool b) | _ \<Rightarrow> Inl TypeError)"
| "value_from_json (TEnum members) j =
     (case j of
        JInt i \<Rightarrow> if i \<in> set members then Inr (VEnum i) else Inl ValueError
      | _ \<Rightarrow> Inl TypeError)"
| "value_from_json (TOptional t) j = (if j = JNull then Inr VNone else value_from_json t j)"
| "value_from_json (TList t) j =
     (case j of
        JList js \<Rightarrow>
          (case collect (map (value_from_json t) js) of
             Inl e \<Rightarrow> Inl e
           | Inr vs \<Rightarrow> Inr (VList vs))
      | _ \<Rightarrow> Inl TypeError)"
| "value_from_json (TDict t) j =
     (case j of
        JDict d \<Rightarrow>
          (case collect (map (\<lambda>kj. case value_from_json t (snd kj) of
                                       Inl e \<Rightarrow> Inl e
                                     | Inr v \<Rightarrow> Inr (fst kj, v)) d) of
             Inl e \<Rightarrow> Inl e
           | Inr kvs \<Rightarrow> Inr (VDict kvs))
      | _ \<Rightarrow> Inl TypeError)"
| "value_from_json (TDataclass c) j =
     (case j of
        JDict d \<Rightarrow>
          (case collect (map (\<lambda>f. case (case map_of d (storage_name f) of
                                           None \<Rightarrow> field_default f
                                         | Some x \<Rightarrow> Some x) of
                                     None \<Rightarrow> Inl TypeError
                                   | Some x \<Rightarrow>
                                       (case value_from_json (field_type f) x of
                                          Inl e \<Rightarrow> Inl e
                                        | Inr v \<Rightarrow> Inr (field_name f, v)))
                             (cls_fields c)) of
             Inl e \<Rightarrow> Inl e
           | Inr vals \<Rightarrow> Inr (VObj c vals))
      | _ \<Rightarrow> Inl TypeError)"
  by pat_completeness auto
termination
proof -
  have field_smaller: "size (field_type f) < size c" if "f \<in> set (cls_fields c)"
    for f and c :: cls
  proof -
    from that have "size f \<le> size_list size (cls_fields c)"
      by (simp add: size_list_estimation')
    moreover have "size_list size (cls_fields c) < size c" by (cases c) simp
    moreover have "size (field_type f) < size f" by (cases f) simp
    ultimately show ?thesis by linarith
  qed
  then have field_le: "size (field_type f) \<le> size c" if "f \<in> set (cls_fields c)"
    for f and c :: cls
    using that by (simp add: less_imp_le)
  show ?thesis
    by (relation "measure (\<lambda>(t, j). size t)") (auto simp: field_le less_Suc_eq_le)
qed

text \<open>
  \<open>dataclass_to_dict\<close> and \<open>dataclass_from_dict\<close> are the two at the top level: the
  instance is serialised as a dataclass value of its own class, and a record is read
  back as an instance of the class asked for.
\<close>

definition dataclass_to_dict :: "obj \<Rightarrow> exn + (string \<times> json) list" where
  "dataclass_to_dict x =
     (case value_to_json (TDataclass (obj_type x)) (VObj (obj_type x) (obj_fields x)) of
        Inl e \<Rightarrow> Inl e
      | Inr j \<Rightarrow> (case j of JDict d \<Rightarrow> Inr d | _ \<Rightarrow> Inl TypeError))"

definition dataclass_from_dict :: "cls \<Rightarrow> (string \<times> json) list \<Rightarrow> exn + obj" where
  "dataclass_from_dict c d =
     (case value_from_json (TDataclass c) (JDict d) of
        Inl e \<Rightarrow> Inl e
      | Inr v \<Rightarrow>
          (case v of
             VObj c' vals \<Rightarrow> Inr \<lparr>obj_type = c', obj_fields = vals\<rparr>
           | _ \<Rightarrow> Inl TypeError))"

text \<open>
  The standard library is a parameter: \<open>json_dumps v\<close> stands for
  \<open>json.dumps(v, separators=(',', ':')).encode()\<close>, \<open>json_loads b\<close> for
  \<open>json.loads(b.decode())\<close> (\<open>None\<close> when it raises), and \<open>format_exc e\<close> for
  \<open>traceback.format_exc()\<close> while \<open>e\<close> is being handled.  The type \<open>'b\<close> is \<open>bytes\<close>.
\<close>

record 'b pylib =
  json_dumps :: "json \<Rightarrow> 'b"
  json_loads :: "'b \<Rightarrow> json option"
  format_exc :: "exn \<Rightarrow> string"

section \<open>\<open>MessageProtocol\<close>\<close>

record MessageProtocol =
  message_types_by_id :: "(int \<times> cls) list"
  message_ids_by_type :: "(cls \<times> int) list"
  response_types_by_id :: "(int \<times> cls) list"
  response_ids_by_type :: "(cls \<times> int) list"
  type_key :: "string option"
  preserve_clean_errors :: bool
  log_remote_exceptions :: bool
  trusted_sender :: bool

text \<open>
  The two registration loops of \<open>__init__\<close>; \<open>base\<close> is \<open>Message\<close> in the first and
  \<open>Response\<close> in the second.  The state is the pair of dictionaries being filled.
\<close>

fun register_types ::
  "cls \<Rightarrow> (int \<times> cls) list \<Rightarrow> (int \<times> cls) list \<times> (cls \<times> int) list \<Rightarrow>
   exn + ((int \<times> cls) list \<times> (cls \<times> int) list)" where
  "register_types base [] st = Inr st"
| "register_types base ((m_id, m_type) # rest) (by_id, by_type) =
     (if \<not> m_id \<ge> 0 then Inl AssertionError
      else if \<not> (is_ioprepped_dataclass m_type \<and> issubclass m_type base)
        then Inl AssertionError
      else if map_of by_id m_id \<noteq> None then Inl AssertionError
      else register_types base rest
             (AList.update m_id m_type by_id, AList.update m_type m_id by_type))"

definition reg_if_not ::
  "cls \<Rightarrow> int \<Rightarrow> (int \<times> cls) list \<times> (cls \<times> int) list \<Rightarrow>
   exn + ((int \<times> cls) list \<times> (cls \<times> int) list)" where
  "reg_if_not reg_tp reg_id st =
     (case st of (by_id, by_type) \<Rightarrow>
        if map_of by_type reg_tp \<noteq> None then Inr st
        else if map_of by_id reg_id \<noteq> None then Inl AssertionError
        else Inr (AList.update reg_id reg_tp by_id, AList.update reg_tp reg_id by_type))"

text \<open>
  The validation under \<open>__debug__\<close> (Python's default mode, the one modelled).  The set
  \<open>all_response_types\<close> is a duplicate-free list; the source walks it in the order of
  the set, so which of several failing classes is reported first may differ, never
  whether the validation fails.
\<close>

fun collect_response_types :: "(int \<times> cls) list \<Rightarrow> cls list \<Rightarrow> exn + cls list" where
  "collect_response_types [] all_response_types = Inr all_response_types"
| "collect_response_types ((m_id, m_type) # rest) all_response_types =
     (let m_rtypes = get_response_types m_type in
      if m_rtypes = [] then Inl AssertionError
      else if length (remdups m_rtypes) \<noteq> length m_rtypes then Inl AssertionError
      else collect_response_types rest (List.union all_response_types m_rtypes))"

fun check_response_types :: "cls list \<Rightarrow> (cls \<times> int) list \<Rightarrow> exn + unit" where
  "check_response_types [] ids = Inr ()"
| "check_response_types (c # cs) ids =
     (if \<not> is_ioprepped_dataclass c then Inl AssertionError
      else if \<not> issubclass c Response then Inl AssertionError
      else if map_of ids c = None then Inl ValueError
      else check_response_types cs ids)"

definition MessageProtocol_init ::
  "(int \<times> cls) list \<Rightarrow> (int \<times> cls) list \<Rightarrow> string option \<Rightarrow> bool \<Rightarrow> bool \<Rightarrow> bool \<Rightarrow>
   exn + MessageProtocol" where
  "MessageProtocol_init message_types response_types tkey preserve log_remote trusted =
     (case register_types Message message_types ([], []) of
        Inl e \<Rightarrow> Inl e
      | Inr (m_by_id, m_by_type) \<Rightarrow>
     (case register_types Response response_types ([], []) of
        Inl e \<Rightarrow> Inl e
      | Inr r0 \<Rightarrow>
     (case reg_if_not ErrorResponse (- 1) r0 of
        Inl e \<Rightarrow> Inl e
      | Inr r1 \<Rightarrow>
     (case reg_if_not EmptyResponse (- 2) r1 of
        Inl e \<Rightarrow> Inl e
      | Inr (r_by_id, r_by_type) \<Rightarrow>
     (case collect_response_types message_types [] of
        Inl e \<Rightarrow> Inl e
      | Inr all_response_types \<Rightarrow>
     (case check_response_types all_response_types r_by_type of
        Inl e \<Rightarrow> Inl e
      | Inr u \<Rightarrow>
          if length (remdups (map cls_name (map fst m_by_type))) \<noteq> length message_types
          then Inl ValueError
          else Inr \<lparr>message_types_by_id = m_by_id,
                    message_ids_by_type = m_by_type,
                    response_types_by_id = r_by_id,
                    response_ids_by_type = r_by_type,
                    type_key = tkey,
                    preserve_clean_errors = preserve,
                    log_remote_exceptions = log_remote,
                    trusted_sender = trusted\<rparr>))))))"

text \<open>
  \<open>MessageProtocol._encode\<close>.  The type key is added with \<open>msgdict[type_key] = m_id\<close>
  after the collision check, so it goes to the end of the dictionary.
\<close>

definition prot_encode ::
  "'b pylib \<Rightarrow> MessageProtocol \<Rightarrow> obj \<Rightarrow> (cls \<times> int) list \<Rightarrow> exn + 'b" where
  "prot_encode L p message ids_by_type =
     (case map_of ids_by_type (obj_type message) of
        None \<Rightarrow> Inl TypeError
      | Some m_id \<Rightarrow>
          (case dataclass_to_dict message of
             Inl e \<Rightarrow> Inl e
           | Inr msgdict \<Rightarrow>
               (case type_key p of
                  Some k \<Rightarrow>
                    if map_of msgdict k \<noteq> None then Inl RuntimeError
                    else Inr (json_dumps L (JDict (AList.update k (JInt m_id) msgdict)))
                | None \<Rightarrow>
                    Inr (json_dumps L (JDict [(''m'', JDict msgdict), (''t'', JInt m_id)])))))"

definition encode_message :: "'b pylib \<Rightarrow> MessageProtocol \<Rightarrow> obj \<Rightarrow> exn + 'b" where
  "encode_message L p message = prot_encode L p message (message_ids_by_type p)"

definition encode_response :: "'b pylib \<Rightarrow> MessageProtocol \<Rightarrow> obj \<Rightarrow> exn + 'b" where
  "encode_response L p response = prot_encode L p response (response_ids_by_type p)"

text \<open>
  \<open>isinstance(v, int)\<close> on a decoded JSON value: Python's \<open>bool\<close> is a subclass of
  \<open>int\<close>, and \<open>True\<close> and \<open>False\<close> look up a dictionary as \<open>1\<close> and \<open>0\<close>.
\<close>

fun as_int :: "json \<Rightarrow> int option" where
  "as_int (JInt i) = Some i"
| "as_int (JBool b) = Some (if b then 1 else 0)"
| "as_int _ = None"

text \<open>
  The end of \<open>MessageProtocol._decode\<close>, from \<open>if isinstance(out, EmptyResponse)\<close> on:
  an \<open>EmptyResponse\<close> is returned as \<open>None\<close>, an \<open>ErrorResponse\<close> is raised as a
  local exception.  \<open>is_response\<close> is \<open>opname == 'response'\<close>.
\<close>

definition decode_special_cases :: "MessageProtocol \<Rightarrow> obj \<Rightarrow> bool \<Rightarrow> exn + obj option" where
  "decode_special_cases p out is_response =
     (if isinstance out EmptyResponse then Inr None
      else if isinstance out ErrorResponse then
        (if \<not> is_response then Inl AssertionError
         else (case map_of (obj_fields out) ''error_message'' of
                 Some (VStr error_message) \<Rightarrow>
                   if preserve_clean_errors p \<and>
                      map_of (obj_fields out) ''error_type''
                        = Some (VEnum (ErrorType_value CLEAN))
                   then Inl (CleanError error_message)
                   else Inl (RemoteError error_message)
               | _ \<Rightarrow> Inl AttributeError))
      else Inr (Some out))"

text \<open>
  \<open>MessageProtocol._decode\<close> up to there.  The result \<open>None\<close> is Python's \<open>None\<close>.
\<close>

definition prot_decode ::
  "'b pylib \<Rightarrow> MessageProtocol \<Rightarrow> 'b \<Rightarrow> (int \<times> cls) list \<Rightarrow> bool \<Rightarrow> exn + obj option" where
  "prot_decode L p data types_by_id is_response =
     (case json_loads L data of
        None \<Rightarrow> Inl JSONDecodeError
      | Some (JDict msgfull) \<Rightarrow>
          (case (case type_key p of
                   Some k \<Rightarrow>
                     (case map_of msgfull k of
                        None \<Rightarrow> Inl KeyError
                      | Some m_id \<Rightarrow> Inr (Some m_id, Some (JDict (AList.delete k msgfull))))
                 | None \<Rightarrow> Inr (map_of msgfull ''t'', map_of msgfull ''m'')) of
             Inl e \<Rightarrow> Inl e
           | Inr (Some m_id_v, Some (JDict msgdict)) \<Rightarrow>
               (case as_int m_id_v of
                  None \<Rightarrow> Inl AssertionError
                | Some m_id \<Rightarrow>
                    (case map_of types_by_id m_id of
                       None \<Rightarrow> Inl TypeError
                     | Some msgtype \<Rightarrow>
                         (case dataclass_from_dict msgtype msgdict of
                            Inl e \<Rightarrow> Inl e
                          | Inr out \<Rightarrow> decode_special_cases p out is_response)))
           | Inr _ \<Rightarrow> Inl AssertionError)
      | Some _ \<Rightarrow> Inl AssertionError)"

definition decode_message :: "'b pylib \<Rightarrow> MessageProtocol \<Rightarrow> 'b \<Rightarrow> exn + obj" where
  "decode_message L p data =
     (case prot_decode L p data (message_types_by_id p) False of
        Inl e \<Rightarrow> Inl e
      | Inr None \<Rightarrow> Inl AssertionError
      | Inr (Some out) \<Rightarrow>
          if isinstance out Message then Inr out else Inl AssertionError)"

definition decode_response :: "'b pylib \<Rightarrow> MessageProtocol \<Rightarrow> 'b \<Rightarrow> exn + obj option" where
  "decode_response L p data =
     (case prot_decode L p data (response_types_by_id p) True of
        Inl e \<Rightarrow> Inl e
      | Inr None \<Rightarrow> Inr None
      | Inr (Some out) \<Rightarrow>
          if isinstance out Response then Inr (Some out) else Inl AssertionError)"

section \<open>\<open>MessageSender\<close>\<close>

record ('o, 'b) MessageSender =
  sender_protocol :: MessageProtocol
  send_raw_message_call :: "('o \<Rightarrow> 'b \<Rightarrow> exn + 'b) option"

definition send ::
  "'b pylib \<Rightarrow> ('o, 'b) MessageSender \<Rightarrow> 'o \<Rightarrow> obj \<Rightarrow> exn + obj option" where
  "send L s bound_obj message =
     (case send_raw_message_call s of
        None \<Rightarrow> Inl RuntimeError
      | Some raw_call \<Rightarrow>
          (case encode_message L (sender_protocol s) message of
             Inl e \<Rightarrow> Inl e
           | Inr msg_encoded \<Rightarrow>
               (case raw_call bound_obj msg_encoded of
                  Inl e \<Rightarrow> Inl e
                | Inr response_encoded \<Rightarrow>
                    (case decode_response L (sender_protocol s) response_encoded of
                       Inl e \<Rightarrow> Inl e
                     | Inr None \<Rightarrow> Inr None
                     | Inr (Some response) \<Rightarrow>
                         if \<not> isinstance response Response then Inl AssertionError
                         else if obj_type response \<notin>
                                   set (get_response_types (obj_type message))
                           then Inl AssertionError
                         else Inr (Some response)))))"

section \<open>\<open>MessageReceiver\<close>\<close>

text \<open>
  What \<open>register_handler\<close> reads off a callable: the argument names of its signature,
  its resolved type hints, and the function itself.  A hint is a class, a generic alias
  with its arguments (\<open>Union[A, B]\<close>, \<open>Optional[A]\<close>), or something that is not a type.
  The function returns a response, \<open>None\<close>, or raises.
\<close>

datatype ann = AType cls | AGenericAlias "ann list" | ANotAType

record 'o handler_call =
  call_args :: "string list"
  call_anns :: "(string \<times> ann) list"
  call_fn :: "'o \<Rightarrow> obj \<Rightarrow> exn + obj option"

record 'o MessageReceiver =
  receiver_protocol :: MessageProtocol
  handlers :: "(cls \<times> 'o handler_call) list"

text \<open>\<open>all(isinstance(a, type) for a in targs)\<close>, keeping the classes.\<close>

fun alias_args :: "ann list \<Rightarrow> exn + cls list" where
  "alias_args [] = Inr []"
| "alias_args (AType c # targs) =
     (case alias_args targs of Inl e \<Rightarrow> Inl e | Inr cs \<Rightarrow> Inr (c # cs))"
| "alias_args (a # targs) = Inl TypeError"

text \<open>
  The declared return types of a handler: the \<open>return\<close> hint is a single class or a
  generic alias whose arguments are all classes, and \<open>type(None)\<close> stands for
  \<open>EmptyResponse\<close>.
\<close>

definition declared_responsetypes :: "(string \<times> ann) list \<Rightarrow> exn + cls list" where
  "declared_responsetypes anns =
     (case (case map_of anns ''return'' of
              Some (AGenericAlias targs) \<Rightarrow> alias_args targs
            | Some (AType ret) \<Rightarrow> Inr [ret]
            | _ \<Rightarrow> Inl TypeError) of
        Inl e \<Rightarrow> Inl e
      | Inr rets \<Rightarrow> Inr (map (\<lambda>r. if r = NoneType then EmptyResponse else r) rets))"

definition register_handler ::
  "'o MessageReceiver \<Rightarrow> 'o handler_call \<Rightarrow> exn + 'o MessageReceiver" where
  "register_handler r call =
     (if call_args call \<noteq> [''self'', ''msg''] then Inl ValueError
      else
        (case map_of (call_anns call) ''msg'' of
           Some (AType msgtype) \<Rightarrow>
             if \<not> issubclass msgtype Message then Inl AssertionError
             else
               (case declared_responsetypes (call_anns call) of
                  Inl e \<Rightarrow> Inl e
                | Inr responsetypes \<Rightarrow>
                    if map_of (message_ids_by_type (receiver_protocol r)) msgtype = None
                      then Inl TypeError
                    else if map_of (handlers r) msgtype \<noteq> None then Inl TypeError
                    else if set responsetypes \<noteq> set (get_response_types msgtype)
                      then Inl TypeError
                    else Inr (r\<lparr>handlers := AList.update msgtype call (handlers r)\<rparr>))
         | _ \<Rightarrow> Inl TypeError))"

text \<open>
  \<open>validate\<close> returns what it logged together with its outcome.  The text of the
  warning is \<open>f'Protocol message {msgtype} not handled by receiver.'\<close>.
\<close>

definition class_str :: "cls \<Rightarrow> string" where
  "class_str c = ''<class '' @ [CHR 0x27] @ cls_module c @ ''.'' @ cls_name c @ [CHR 0x27] @ ''>''"

fun validate_loop ::
  "cls list \<Rightarrow> (cls \<times> 'o handler_call) list \<Rightarrow> bool \<Rightarrow> string list \<times> (exn + unit)" where
  "validate_loop [] hs warn_only = ([], Inr ())"
| "validate_loop (msgtype # rest) hs warn_only =
     (if issubclass msgtype Response then validate_loop rest hs warn_only
      else if map_of hs msgtype = None then
        (let msg = ''Protocol message '' @ class_str msgtype @ '' not handled by receiver.'' in
         (if warn_only then [msg] else [], Inl TypeError))
      else validate_loop rest hs warn_only)"

definition validate :: "'o MessageReceiver \<Rightarrow> bool \<Rightarrow> string list \<times> (exn + unit)" where
  "validate r warn_only =
     validate_loop (map fst (message_ids_by_type (receiver_protocol r))) (handlers r) warn_only"

text \<open>
  \<open>handle_raw_message\<close> returns what it logged together with its outcome: the bytes it
  returns, or the exception that leaves it.  \<open>handle_try\<close> is the body of the \<open>try\<close>,
  \<open>handle_except\<close> the body of the \<open>except Exception\<close> clause.
\<close>

definition handle_try ::
  "'b pylib \<Rightarrow> 'o MessageReceiver \<Rightarrow> 'o \<Rightarrow> 'b \<Rightarrow> exn + 'b" where
  "handle_try L r bound_obj msg =
     (case decode_message L (receiver_protocol r) msg of
        Inl e \<Rightarrow> Inl e
      | Inr msg_decoded \<Rightarrow>
          (let msgtype = obj_type msg_decoded in
           if \<not> issubclass msgtype Message then Inl AssertionError
           else
             (case map_of (handlers r) msgtype of
                None \<Rightarrow> Inl RuntimeError
              | Some handler \<Rightarrow>
                  (case call_fn handler bound_obj msg_decoded of
                     Inl e \<Rightarrow> Inl e
                   | Inr ret \<Rightarrow>
                       (let response =
                              (case ret of None \<Rightarrow> EmptyResponse_new | Some x \<Rightarrow> x) in
                        if \<not> isinstance response Response then Inl AssertionError
                        else if isinstance response ErrorResponse then Inl AssertionError
                        else if obj_type response \<notin> set (get_response_types msgtype)
                          then Inl AssertionError
                        else encode_response L (receiver_protocol r) response)))))"

definition handle_except ::
  "'b pylib \<Rightarrow> MessageProtocol \<Rightarrow> exn \<Rightarrow> string list \<times> (exn + 'b)" where
  "handle_except L p exc =
     (let logged = (if log_remote_exceptions p then [''Error handling message.''] else []);
          err_response =
            (if is_CleanError exc \<and> preserve_clean_errors p
             then ErrorResponse_new (str_exn exc) CLEAN
             else ErrorResponse_new
                    (if trusted_sender p then format_exc L exc
                     else ''An unknown error has occurred.'') OTHER)
      in (logged, encode_response L p err_response))"

definition handle_raw_message ::
  "'b pylib \<Rightarrow> 'o MessageReceiver \<Rightarrow> 'o \<Rightarrow> 'b \<Rightarrow> string list \<times> (exn + 'b)" where
  "handle_raw_message L r bound_obj msg =
     (case handle_try L r bound_obj msg of
        Inr data \<Rightarrow> ([], Inr data)
      | Inl exc \<Rightarrow> handle_except L (receiver_protocol r) exc)"

section \<open>Well-formed instances\<close>

text \<open>
  A value that fits its annotated type.  For a dataclass this asks that the class has
  distinct field names and distinct storage names, and that the instance holds exactly
  the fields of its class, in declaration order, each with a value that fits.
\<close>

function valid_value :: "ftype \<Rightarrow> pyval \<Rightarrow> bool" where
  "valid_value TInt v = (case v of VInt i \<Rightarrow> True | _ \<Rightarrow> False)"
| "valid_value TFloat v = (case v of VFloat s \<Rightarrow> True | _ \<Rightarrow> False)"
| "valid_value TStr v = (case v of VStr s \<Rightarrow> True | _ \<Rightarrow> False)"
| "valid_value TBool v = (case v of VBool b \<Rightarrow> True | _ \<Rightarrow> False)"
| "valid_value (TEnum members) v = (case v of VEnum i \<Rightarrow> i \<in> set members | _ \<Rightarrow> False)"
| "valid_value (TOptional t) v = (if v = VNone then True else valid_value t v)"
| "valid_value (TList t) v =
     (case v of VList vs \<Rightarrow> list_all (valid_value t) vs | _ \<Rightarrow> False)"
| "valid_value (TDict t) v =
     (case v of
        VDict kvs \<Rightarrow> distinct (map fst kvs) \<and> list_all (\<lambda>kv. valid_value t (snd kv)) kvs
      | _ \<Rightarrow> False)"
| "valid_value (TDataclass c) v =
     (case v of
        VObj c' vals \<Rightarrow>
          c' = c \<and>
          distinct (map field_name (cls_fields c)) \<and>
          distinct (map storage_name (cls_fields c)) \<and>
          map fst vals = map field_name (cls_fields c) \<and>
          list_all (\<lambda>f. case map_of vals (field_name f) of
                          None \<Rightarrow> False
                        | Some x \<Rightarrow> valid_value (field_type f) x) (cls_fields c)
      | _ \<Rightarrow> False)"
  by pat_completeness auto
termination
proof -
  have field_smaller: "size (field_type f) < size c" if "f \<in> set (cls_fields c)"
    for f and c :: cls
  proof -
    from that have "size f \<le> size_list size (cls_fields c)"
      by (simp add: size_list_estimation')
    moreover have "size_list size (cls_fields c) < size c" by (cases c) simp
    moreover have "size (field_type f) < size f" by (cases f) simp
    ultimately show ?thesis by linarith
  qed
  then have field_le: "size (field_type f) \<le> size c" if "f \<in> set (cls_fields c)"
    for f and c :: cls
    using that by (simp add: less_imp_le)
  show ?thesis
    by (relation "measure (\<lambda>(t, v). size t)") (auto simp: field_le less_Suc_eq_le)
qed

text \<open>An instance with valid field values.\<close>

definition valid_instance :: "obj \<Rightarrow> bool" where
  "valid_instance x = valid_value (TDataclass (obj_type x)) (VObj (obj_type x) (obj_fields x))"

text \<open>A value whose stored form is read back as the value itself.\<close>

definition roundtrips :: "ftype \<Rightarrow> pyval \<Rightarrow> bool" where
  "roundtrips t v = (\<exists>j. value_to_json t v = Inr j \<and> value_from_json t j = Inr v)"

section \<open>A worked protocol\<close>

text \<open>
  The scenario of the specification: \<open>Ping\<close> (id 1) answered by \<open>Pong\<close>, and
  \<open>Shutdown\<close> (id 2) with the default response types.  \<open>Echo\<close> is both a message and a
  response.  The two \<open>Status\<close> classes live in different modules and share their
  \<open>__name__\<close>.
\<close>

definition Pong :: cls where
  "Pong = Cls ''app.messages'' ''Pong'' [Response] True
     [IOField ''reply'' ''r'' TStr None] None"

definition Ping :: cls where
  "Ping = Cls ''app.messages'' ''Ping'' [Message] True
     [IOField ''message'' ''v'' TInt (Some (JInt 0))] (Some [Pong])"

definition Shutdown :: cls where
  "Shutdown = Cls ''app.messages'' ''Shutdown'' [Message] True [] None"

definition Echo :: cls where
  "Echo = Cls ''app.messages'' ''Echo'' [Message, Response] True [] None"

definition StatusResponse :: cls where
  "StatusResponse = Cls ''app.responses'' ''Status'' [Response] True [] None"

definition StatusMessage :: cls where
  "StatusMessage = Cls ''app.messages'' ''Status'' [Message] True [] (Some [StatusResponse])"

definition Ping_new :: "int \<Rightarrow> obj" where
  "Ping_new v = \<lparr>obj_type = Ping, obj_fields = [(''message'', VInt v)]\<rparr>"

definition Pong_new :: "string \<Rightarrow> obj" where
  "Pong_new reply = \<lparr>obj_type = Pong, obj_fields = [(''reply'', VStr reply)]\<rparr>"

definition Shutdown_new :: obj where
  "Shutdown_new = \<lparr>obj_type = Shutdown, obj_fields = []\<rparr>"

text \<open>
  \<open>MessageProtocol({1: Ping, 2: Shutdown}, {1: Pong})\<close>, as \<open>__init__\<close> leaves it.
\<close>

definition example_protocol :: MessageProtocol where
  "example_protocol =
     \<lparr>message_types_by_id = [(1, Ping), (2, Shutdown)],
      message_ids_by_type = [(Ping, 1), (Shutdown, 2)],
      response_types_by_id = [(1, Pong), (- 1, ErrorResponse), (- 2, EmptyResponse)],
      response_ids_by_type = [(Pong, 1), (ErrorResponse, - 1), (EmptyResponse, - 2)],
      type_key = None,
      preserve_clean_errors = True,
      log_remote_exceptions = True,
      trusted_sender = False\<rparr>"

text \<open>\<open>MessageProtocol({}, {}, type_key='m')\<close>, as \<open>__init__\<close> leaves it.\<close>

definition keyed_protocol :: MessageProtocol where
  "keyed_protocol =
     \<lparr>message_types_by_id = [],
      message_ids_by_type = [],
      response_types_by_id = [(- 1, ErrorResponse), (- 2, EmptyResponse)],
      response_ids_by_type = [(ErrorResponse, - 1), (EmptyResponse, - 2)],
      type_key = Some ''m'',
      preserve_clean_errors = True,
      log_remote_exceptions = True,
      trusted_sender = False\<rparr>"

text \<open>\<open>MessageProtocol({0: app.messages.Status}, {0: app.responses.Status})\<close>.\<close>

definition status_protocol :: MessageProtocol where
  "status_protocol =
     \<lparr>message_types_by_id = [(0, StatusMessage)],
      message_ids_by_type = [(StatusMessage, 0)],
      response_types_by_id = [(0, StatusResponse), (- 1, ErrorResponse), (- 2, EmptyResponse)],
      response_ids_by_type = [(StatusResponse, 0), (ErrorResponse, - 1), (EmptyResponse, - 2)],
      type_key = None,
      preserve_clean_errors = True,
      log_remote_exceptions = True,
      trusted_sender = False\<rparr>"

text \<open>\<open>MessageProtocol({3: Echo}, {})\<close>.\<close>

definition echo_protocol :: MessageProtocol where
  "echo_protocol =
     \<lparr>message_types_by_id = [(3, Echo)],
      message_ids_by_type = [(Echo, 3)],
      response_types_by_id = [(- 1, ErrorResponse), (- 2, EmptyResponse)],
      response_ids_by_type = [(ErrorResponse, - 1), (EmptyResponse, - 2)],
      type_key = None,
      preserve_clean_errors = True,
      log_remote_exceptions = True,
      trusted_sender = False\<rparr>"

text \<open>
  A stand-in for the standard library in which a byte string is identified with the
  JSON document it carries, and the formatted traceback ends with the text of the
  exception.
\<close>

definition document_lib :: "json pylib" where
  "document_lib =
     \<lparr>json_dumps = (\<lambda>v. v),
      json_loads = (\<lambda>b. Some b),
      format_exc = (\<lambda>e. ''Traceback (most recent call last): '' @ str_exn e)\<rparr>"

text \<open>
  The handlers of the scenario: \<open>Ping\<close> is answered by \<open>Pong(reply='pong')\<close>,
  \<open>Shutdown\<close> raises \<open>CleanError('no permission')\<close>, and a second handler for
  \<open>Shutdown\<close> raises a \<open>KeyError\<close>-like exception with the text \<open>secret\<close>.
\<close>

definition handle_ping :: "unit handler_call" where
  "handle_ping =
     \<lparr>call_args = [''self'', ''msg''],
      call_anns = [(''msg'', AType Ping), (''return'', AType Pong)],
      call_fn = (\<lambda>self msg. Inr (Some (Pong_new ''pong'')))\<rparr>"

definition handle_shutdown :: "unit handler_call" where
  "handle_shutdown =
     \<lparr>call_args = [''self'', ''msg''],
      call_anns = [(''msg'', AType Shutdown), (''return'', AType NoneType)],
      call_fn = (\<lambda>self msg. Inl (CleanError ''no permission''))\<rparr>"

definition handle_shutdown_crash :: "unit handler_call" where
  "handle_shutdown_crash =
     \<lparr>call_args = [''self'', ''msg''],
      call_anns = [(''msg'', AType Shutdown), (''return'', AType NoneType)],
      call_fn = (\<lambda>self msg. Inl (OtherException ''secret''))\<rparr>"

definition example_receiver :: "unit MessageReceiver" where
  "example_receiver =
     \<lparr>receiver_protocol = example_protocol,
      handlers = [(Ping, handle_ping), (Shutdown, handle_shutdown)]\<rparr>"

definition example_sender :: "(unit, json) MessageSender" where
  "example_sender =
     \<lparr>sender_protocol = example_protocol,
      send_raw_message_call =
        Some (\<lambda>self data. snd (handle_raw_message document_lib example_receiver () data))\<rparr>"

text \<open>\<open>MessageProtocol({}, {7: ErrorResponse})\<close>.\<close>

definition explicit_protocol :: MessageProtocol where
  "explicit_protocol =
     \<lparr>message_types_by_id = [],
      message_ids_by_type = [],
      response_types_by_id = [(7, ErrorResponse), (- 2, EmptyResponse)],
      response_ids_by_type = [(ErrorResponse, 7), (EmptyResponse, - 2)],
      type_key = None,
      preserve_clean_errors = True,
      log_remote_exceptions = True,
      trusted_sender = False\<rparr>"

text \<open>
  A handler for \<open>Ping\<close> annotated \<open>-> Optional[Pong]\<close>, which declares more than
  \<open>Ping.get_response_types()\<close> allows.
\<close>

definition handle_ping_optional :: "unit handler_call" where
  "handle_ping_optional =
     \<lparr>call_args = [''self'', ''msg''],
      call_anns = [(''msg'', AType Ping),
                   (''return'', AGenericAlias [AType Pong, AType NoneType])],
      call_fn = (\<lambda>self msg. Inr None)\<rparr>"

text \<open>A receiver whose \<open>Shutdown\<close> handler crashes, on a trusted or untrusted protocol.\<close>

definition crash_receiver :: "bool \<Rightarrow> unit MessageReceiver" where
  "crash_receiver trusted =
     \<lparr>receiver_protocol = example_protocol\<lparr>trusted_sender := trusted\<rparr>,
      handlers = [(Shutdown, handle_shutdown_crash)]\<rparr>"

text \<open>
  A message with nested fields: \<open>tags: List[str]\<close>, \<open>note: Optional[str]\<close>,
  \<open>origin: Origin\<close> (a dataclass of its own), \<open>ratio: float\<close> and
  \<open>limits: Dict[str, int]\<close>; and \<open>MessageProtocol({3: Report}, {}, type_key='type')\<close>.
\<close>

definition Origin :: cls where
  "Origin = Cls ''app.messages'' ''Origin'' [] True
     [IOField ''host'' ''h'' TStr None, IOField ''port'' ''p'' TInt None] None"

definition Report :: cls where
  "Report = Cls ''app.messages'' ''Report'' [Message] True
     [IOField ''tags'' ''tg'' (TList TStr) None,
      IOField ''note'' ''n'' (TOptional TStr) (Some JNull),
      IOField ''origin'' ''o'' (TDataclass Origin) None,
      IOField ''ratio'' ''r'' TFloat None,
      IOField ''limits'' ''l'' (TDict TInt) None] None"

definition Report_new :: obj where
  "Report_new =
     \<lparr>obj_type = Report,
      obj_fields =
        [(''tags'', VList [VStr ''a'', VStr ''b'']),
         (''note'', VNone),
         (''origin'', VObj Origin [(''host'', VStr ''node1''), (''port'', VInt 8080)]),
         (''ratio'', VFloat ''0.5''),
         (''limits'', VDict [(''cpu'', VInt 2)])]\<rparr>"

definition Report_wire :: json where
  "Report_wire =
     JDict [(''tg'', JList [JStr ''a'', JStr ''b'']),
            (''n'', JNull),
            (''o'', JDict [(''h'', JStr ''node1''), (''p'', JInt 8080)]),
            (''r'', JFloat ''0.5''),
            (''l'', JDict [(''cpu'', JInt 2)]),
            (''type'', JInt 3)]"

definition report_protocol :: MessageProtocol where
  "report_protocol =
     \<lparr>message_types_by_id = [(3, Report)],
      message_ids_by_type = [(Report, 3)],
      response_types_by_id = [(- 1, ErrorResponse), (- 2, EmptyResponse)],
      response_ids_by_type = [(ErrorResponse, - 1), (EmptyResponse, - 2)],
      type_key = Some ''type'',
      preserve_clean_errors = True,
      log_remote_exceptions = True,
      trusted_sender = False\<rparr>"

text \<open>
  \<open>MessageProtocol({2: Shutdown}, {}, type_key='m')\<close>, a receiver on it whose
  \<open>Shutdown\<close> handler raises \<open>CleanError('no permission')\<close>, and a sender whose
  transport hands the bytes to that receiver.
\<close>

definition keyed_shutdown_protocol :: MessageProtocol where
  "keyed_shutdown_protocol =
     \<lparr>message_types_by_id = [(2, Shutdown)],
      message_ids_by_type = [(Shutdown, 2)],
      response_types_by_id = [(- 1, ErrorResponse), (- 2, EmptyResponse)],
      response_ids_by_type = [(ErrorResponse, - 1), (EmptyResponse, - 2)],
      type_key = Some ''m'',
      preserve_clean_errors = True,
      log_remote_exceptions = True,
      trusted_sender = False\<rparr>"

definition keyed_receiver :: "unit MessageReceiver" where
  "keyed_receiver =
     \<lparr>receiver_protocol = keyed_shutdown_protocol,
      handlers = [(Shutdown, handle_shutdown)]\<rparr>"

definition keyed_sender :: "(unit, json) MessageSender" where
  "keyed_sender =
     \<lparr>sender_protocol = keyed_shutdown_protocol,
      send_raw_message_call =
        Some (\<lambda>self data. snd (handle_raw_message document_lib keyed_receiver () data))\<rparr>"

text \<open>
  A handler for \<open>Shutdown\<close> whose second argument is called \<open>message\<close>:
  \<open>def handle(self, message: Shutdown) -> None\<close>.
\<close>

definition handle_shutdown_misnamed :: "unit handler_call" where
  "handle_shutdown_misnamed =
     \<lparr>call_args = [''self'', ''message''],
      call_anns = [(''message'', AType Shutdown), (''return'', AType NoneType)],
      call_fn = (\<lambda>self msg. Inr None)\<rparr>"

section \<open>Evaluating the worked protocol\<close>

lemmas cls_defs = Ping_def Pong_def Shutdown_def Echo_def StatusMessage_def StatusResponse_def
  Origin_def Report_def Message_def Response_def ErrorResponse_def EmptyResponse_def NoneType_def

lemmas init_defs = MessageProtocol_init_def reg_if_not_def is_ioprepped_dataclass_def
  get_response_types_def List.union_def List.insert_def

lemma example_protocol_init:
  "MessageProtocol_init [(1, Ping), (2, Shutdown)] [(1, Pong)] None True True False
     = Inr example_protocol"
  by (simp add: init_defs cls_defs example_protocol_def)

lemma keyed_protocol_init:
  "MessageProtocol_init [] [] (Some ''m'') True True False = Inr keyed_protocol"
  by (simp add: init_defs cls_defs keyed_protocol_def)

lemma status_protocol_init:
  "MessageProtocol_init [(0, StatusMessage)] [(0, StatusResponse)] None True True False
     = Inr status_protocol"
  by (simp add: init_defs cls_defs status_protocol_def)

lemma echo_protocol_init:
  "MessageProtocol_init [(3, Echo)] [] None True True False = Inr echo_protocol"
  by (simp add: init_defs cls_defs echo_protocol_def)

lemma explicit_protocol_init:
  "MessageProtocol_init [] [(7, ErrorResponse)] None True True False = Inr explicit_protocol"
  by (simp add: init_defs cls_defs explicit_protocol_def)

lemma report_protocol_init:
  "MessageProtocol_init [(3, Report)] [] (Some ''type'') True True False = Inr report_protocol"
  by (simp add: init_defs cls_defs report_protocol_def)

lemma keyed_shutdown_protocol_init:
  "MessageProtocol_init [(2, Shutdown)] [] (Some ''m'') True True False
     = Inr keyed_shutdown_protocol"
  by (simp add: init_defs cls_defs keyed_shutdown_protocol_def)

lemma issubclass_Ping: "issubclass Ping Message"
  by (simp add: cls_defs)

lemma issubclass_Shutdown: "issubclass Shutdown Message"
  by (simp add: cls_defs)

lemma ErrorResponse_neq_EmptyResponse: "ErrorResponse \<noteq> EmptyResponse"
  by (simp add: ErrorResponse_def EmptyResponse_def)

section \<open>The registry built by \<open>__init__\<close>\<close>

lemma register_types_by_id:
  "register_types base items (bi, bt) = Inr (bi', bt') \<Longrightarrow>
   map_of bi' i = Some c \<longleftrightarrow> map_of bi i = Some c \<or> (i, c) \<in> set items"
proof (induction base items "(bi, bt)" arbitrary: bi bt rule: register_types.induct)
  case (1 base st)
  then show ?case by simp
next
  case (2 base m_id m_type rest by_id by_type)
  then show ?case
    by (auto simp: AList.update_conv' split: if_splits)
qed

lemma register_types_by_type:
  "register_types base items (bi, bt) = Inr (bi', bt') \<Longrightarrow>
   map_of bt' c = Some i \<Longrightarrow> map_of bt c = Some i \<or> (i, c) \<in> set items"
proof (induction base items "(bi, bt)" arbitrary: bi bt rule: register_types.induct)
  case (1 base st)
  then show ?case by simp
next
  case (2 base m_id m_type rest by_id by_type)
  then show ?case
    by (auto simp: AList.update_conv' split: if_splits)
qed

lemma register_types_dom:
  "register_types base items (bi, bt) = Inr (bi', bt') \<Longrightarrow>
   map_of bt' c \<noteq> None \<longleftrightarrow> map_of bt c \<noteq> None \<or> c \<in> snd ` set items"
proof (induction base items "(bi, bt)" arbitrary: bi bt rule: register_types.induct)
  case (1 base st)
  then show ?case by simp
next
  case (2 base m_id m_type rest by_id by_type)
  then show ?case
    by (auto simp: AList.update_conv' split: if_splits)
qed

lemma register_types_checks:
  "register_types base items st = Inr st' \<Longrightarrow> (i, c) \<in> set items \<Longrightarrow>
   0 \<le> i \<and> is_ioprepped_dataclass c \<and> issubclass c base"
proof (induction base items st arbitrary: st' rule: register_types.induct)
  case (1 base st)
  then show ?case by simp
next
  case (2 base m_id m_type rest by_id by_type)
  then show ?case
    by (auto split: if_splits)
qed

text \<open>
  The two dictionaries of a registry stay inverse to each other: the id that a type is
  filed under leads back to that type.
\<close>

lemma register_types_consistent:
  assumes "register_types base items (bi, bt) = Inr (bi', bt')"
      and "\<forall>c i. map_of bt c = Some i \<longrightarrow> map_of bi i = Some c"
  shows "\<forall>c i. map_of bt' c = Some i \<longrightarrow> map_of bi' i = Some c"
  using assms
proof (induction base items "(bi, bt)" arbitrary: bi bt rule: register_types.induct)
  case (1 base st)
  then show ?case by simp
next
  case (2 base m_id m_type rest by_id by_type)
  from "2.prems"(1) have ok: "map_of by_id m_id = None"
    and rec: "register_types base rest
                (AList.update m_id m_type by_id, AList.update m_type m_id by_type)
                = Inr (bi', bt')"
    and guards: "0 \<le> m_id" "is_ioprepped_dataclass m_type \<and> issubclass m_type base"
    by (auto split: if_splits)
  have "\<forall>c i. map_of (AList.update m_type m_id by_type) c = Some i \<longrightarrow>
               map_of (AList.update m_id m_type by_id) i = Some c"
    using "2.prems"(2) ok by (auto simp: AList.update_conv')
  with "2.hyps" guards ok rec show ?case by simp
qed

lemma reg_if_not_consistent:
  assumes "reg_if_not tp k (bi, bt) = Inr (bi', bt')"
      and "\<forall>c i. map_of bt c = Some i \<longrightarrow> map_of bi i = Some c"
  shows "\<forall>c i. map_of bt' c = Some i \<longrightarrow> map_of bi' i = Some c"
  using assms by (auto simp: reg_if_not_def AList.update_conv' split: if_splits)

lemma reg_if_not_registered:
  "reg_if_not tp k (bi, bt) = Inr (bi', bt') \<Longrightarrow> map_of bt' tp \<noteq> None"
  by (auto simp: reg_if_not_def AList.update_conv' split: if_splits)

lemma reg_if_not_fresh:
  "reg_if_not tp k (bi, bt) = Inr (bi', bt') \<Longrightarrow> map_of bt tp = None \<Longrightarrow>
   map_of bt' tp = Some k \<and> map_of bi' k = Some tp \<and>
   (\<forall>c. c \<noteq> tp \<longrightarrow> map_of bt' c = map_of bt c) \<and>
   (\<forall>i. i \<noteq> k \<longrightarrow> map_of bi' i = map_of bi i)"
  by (auto simp: reg_if_not_def AList.update_conv' split: if_splits)

lemma reg_if_not_kept:
  "reg_if_not tp k (bi, bt) = Inr (bi', bt') \<Longrightarrow> map_of bt tp \<noteq> None \<Longrightarrow>
   bi' = bi \<and> bt' = bt"
  by (auto simp: reg_if_not_def split: if_splits)

lemma MessageProtocol_init_steps:
  assumes "MessageProtocol_init message_types response_types tk pce lre ts = Inr p"
  obtains r0 r1 where
    "register_types Message message_types ([], []) =
       Inr (message_types_by_id p, message_ids_by_type p)"
    "register_types Response response_types ([], []) = Inr r0"
    "reg_if_not ErrorResponse (- 1) r0 = Inr r1"
    "reg_if_not EmptyResponse (- 2) r1 = Inr (response_types_by_id p, response_ids_by_type p)"
    "type_key p = tk" "preserve_clean_errors p = pce"
    "log_remote_exceptions p = lre" "trusted_sender p = ts"
  using assms unfolding MessageProtocol_init_def
  by (auto split: sum.splits prod.splits if_splits)

lemma response_registry_user:
  assumes "register_types Response response_types ([], []) = Inr (bi, bt)"
  shows "map_of bi i = Some c \<longleftrightarrow> (i, c) \<in> set response_types"
    and "map_of bt c \<noteq> None \<longleftrightarrow> c \<in> snd ` set response_types"
    and "map_of bt c = Some i \<Longrightarrow> (i, c) \<in> set response_types \<and> 0 \<le> i"
proof -
  show "map_of bi i = Some c \<longleftrightarrow> (i, c) \<in> set response_types"
    using register_types_by_id [OF assms, of i c] by simp
  show "map_of bt c \<noteq> None \<longleftrightarrow> c \<in> snd ` set response_types"
    using register_types_dom [OF assms, of c] by simp
  show "map_of bt c = Some i \<Longrightarrow> (i, c) \<in> set response_types \<and> 0 \<le> i"
    using register_types_by_type [OF assms, of c i] register_types_checks [OF assms, of i c]
    by simp
qed

lemma reg_if_not_other:
  "reg_if_not tp k (bi, bt) = Inr (bi', bt') \<Longrightarrow> c \<noteq> tp \<Longrightarrow> map_of bt' c = map_of bt c"
  by (auto simp: reg_if_not_def AList.update_conv' split: if_splits)

lemma reg_if_not_other_id:
  "reg_if_not tp k (bi, bt) = Inr (bi', bt') \<Longrightarrow> i \<noteq> k \<Longrightarrow> map_of bi' i = map_of bi i"
  by (auto simp: reg_if_not_def AList.update_conv' split: if_splits)

section \<open>Handler coverage: \<open>validate\<close>\<close>

lemma validate_loop_passes:
  "validate_loop ts hs w = ([], Inr ()) \<longleftrightarrow>
     (\<forall>t\<in>set ts. issubclass t Response \<or> map_of hs t \<noteq> None)"
  by (induction ts) (auto simp: Let_def)

text \<open>
  C10.  \<open>validate\<close> passes, in either mode, exactly when every registered message type
  that is not a subclass of \<open>Response\<close> has a handler: a registered message type that
  is also a \<open>Response\<close> is skipped and is never reported, with or without a handler.
\<close>

theorem validate_skips_response_subclasses:
  "validate r warn_only = ([], Inr ()) \<longleftrightarrow>
     (\<forall>msgtype \<in> set (map fst (message_ids_by_type (receiver_protocol r))).
        issubclass msgtype Response \<or> map_of (handlers r) msgtype \<noteq> None)"
  unfolding validate_def by (rule validate_loop_passes)

theorem validate_skips_response_subclasses_witness:
  "MessageProtocol_init [(3, Echo)] [] None True True False = Inr echo_protocol \<and>
   issubclass Echo Message \<and> issubclass Echo Response \<and>
   map_of (handlers \<lparr>receiver_protocol = echo_protocol,
                     handlers = ([] :: (cls \<times> unit handler_call) list)\<rparr>) Echo = None \<and>
   validate \<lparr>receiver_protocol = echo_protocol,
             handlers = ([] :: (cls \<times> unit handler_call) list)\<rparr> True = ([], Inr ()) \<and>
   validate \<lparr>receiver_protocol = echo_protocol,
             handlers = ([] :: (cls \<times> unit handler_call) list)\<rparr> False = ([], Inr ())"
  using validate_skips_response_subclasses
          [of "\<lparr>receiver_protocol = echo_protocol,
                handlers = ([] :: (cls \<times> unit handler_call) list)\<rparr>" True]
        validate_skips_response_subclasses
          [of "\<lparr>receiver_protocol = echo_protocol,
                handlers = ([] :: (cls \<times> unit handler_call) list)\<rparr>" False]
        echo_protocol_init
  by (simp add: echo_protocol_def cls_defs)

text \<open>
  C6.  With \<open>warn_only=True\<close>, a receiver of the worked protocol that has no handler
  for \<open>Ping\<close> logs the warning and then raises \<open>TypeError\<close> all the same: the \<open>raise\<close>
  follows the \<open>if warn_only:\<close> block unconditionally.
\<close>

theorem validate_warn_only_raises:
  "MessageProtocol_init [(1, Ping), (2, Shutdown)] [(1, Pong)] None True True False
     = Inr example_protocol \<and>
   validate \<lparr>receiver_protocol = example_protocol,
             handlers = ([] :: (cls \<times> unit handler_call) list)\<rparr> True =
     ([''Protocol message <class '' @ [CHR 0x27] @ ''app.messages.Ping'' @ [CHR 0x27] @
         ''> not handled by receiver.''], Inl TypeError)"
  using example_protocol_init
  by (simp add: validate_def example_protocol_def class_str_def cls_defs)

section \<open>Unique type names\<close>

text \<open>
  C8.  A message type and a response type of different modules that share their
  \<open>__name__\<close> are accepted by \<open>__init__\<close>: only the names of the message types are
  compared with each other.
\<close>

theorem duplicate_name_across_registries_accepted:
  "cls_name StatusMessage = cls_name StatusResponse \<and> StatusMessage \<noteq> StatusResponse \<and>
   MessageProtocol_init [(0, StatusMessage)] [(0, StatusResponse)] None True True False
     = Inr status_protocol"
  using status_protocol_init by (simp add: cls_defs)

section \<open>Round trips\<close>

subsection \<open>The dataclass layer\<close>

lemma collect_map_Inr:
  "(\<And>x. x \<in> set xs \<Longrightarrow> f x = Inr (h x)) \<Longrightarrow> collect (map f xs) = Inr (map h xs)"
  by (induction xs) auto

lemma alist_rebuild:
  assumes d: "distinct (map fst xs)"
  shows "map (\<lambda>k. (k, the (map_of xs k))) (map fst xs) = xs"
proof -
  have "map (\<lambda>p. (fst p, the (map_of xs (fst p)))) xs = xs"
  proof (rule map_idI)
    fix p assume m: "p \<in> set xs"
    have "map_of xs (fst p) = Some (snd p)"
      using map_of_is_SomeI [OF d, of "fst p" "snd p"] m by simp
    then show "(fst p, the (map_of xs (fst p))) = p" by simp
  qed
  then show ?thesis by (simp add: comp_def)
qed

lemma map_of_storage:
  "distinct (map storage_name fs) \<Longrightarrow> f \<in> set fs \<Longrightarrow>
   map_of (map (\<lambda>f. (storage_name f, g f)) fs) (storage_name f) = Some (g f)"
  by (induction fs) (auto simp: image_iff)

text \<open>Only \<open>None\<close> is stored as \<open>null\<close>.\<close>

lemma value_to_json_null:
  "value_to_json t v = Inr JNull \<Longrightarrow> v = VNone"
  by (induction t v rule: value_to_json.induct)
     (auto split: pyval.splits if_splits sum.splits)

text \<open>The stored form of a value that round-trips.\<close>

lemma roundtrips_stored:
  assumes "roundtrips t v"
  obtains j where "value_to_json t v = Inr j" "value_from_json t j = Inr v"
  using assms unfolding roundtrips_def by blast

lemma roundtrips_TInt: "valid_value TInt v \<Longrightarrow> roundtrips TInt v"
  by (cases v) (simp_all add: roundtrips_def)

lemma roundtrips_TFloat: "valid_value TFloat v \<Longrightarrow> roundtrips TFloat v"
  by (cases v) (simp_all add: roundtrips_def)

lemma roundtrips_TStr: "valid_value TStr v \<Longrightarrow> roundtrips TStr v"
  by (cases v) (simp_all add: roundtrips_def)

lemma roundtrips_TBool: "valid_value TBool v \<Longrightarrow> roundtrips TBool v"
  by (cases v) (simp_all add: roundtrips_def)

lemma roundtrips_TEnum: "valid_value (TEnum ms) v \<Longrightarrow> roundtrips (TEnum ms) v"
  by (cases v) (simp_all add: roundtrips_def)

lemma roundtrips_TOptional:
  assumes IH: "v \<noteq> VNone \<Longrightarrow> valid_value t v \<Longrightarrow> roundtrips t v"
      and valid: "valid_value (TOptional t) v"
  shows "roundtrips (TOptional t) v"
proof (cases "v = VNone")
  case True
  then show ?thesis by (simp add: roundtrips_def)
next
  case False
  with IH valid obtain j where j: "value_to_json t v = Inr j" "value_from_json t j = Inr v"
    by (auto simp: roundtrips_def)
  from j(1) False have "j \<noteq> JNull" using value_to_json_null by blast
  with j False show ?thesis by (simp add: roundtrips_def)
qed

text \<open>
  A list of values that round-trip one by one is serialised to the list of their stored
  forms, which is read back as the list itself.
\<close>

lemma collect_roundtrip:
  assumes "\<And>x. x \<in> set xs \<Longrightarrow> \<exists>y. f x = Inr y \<and> g y = Inr x"
  shows "\<exists>ys. collect (map f xs) = Inr ys \<and> collect (map g ys) = Inr xs"
  using assms
proof (induction xs)
  case Nil
  then show ?case by simp
next
  case (Cons x xs)
  from Cons.prems [of x] obtain y where y: "f x = Inr y" "g y = Inr x" by auto
  from Cons.IH Cons.prems obtain ys where
    ys: "collect (map f xs) = Inr ys" "collect (map g ys) = Inr xs" by auto
  from y ys have "collect (map f (x # xs)) = Inr (y # ys) \<and> collect (map g (y # ys)) = Inr (x # xs)"
    by simp
  then show ?case by blast
qed

lemma roundtrips_TList:
  assumes IH: "\<And>x. x \<in> set vs \<Longrightarrow> valid_value t x \<Longrightarrow> roundtrips t x"
      and valid: "valid_value (TList t) (VList vs)"
  shows "roundtrips (TList t) (VList vs)"
proof -
  have "\<exists>y. value_to_json t x = Inr y \<and> value_from_json t y = Inr x" if "x \<in> set vs" for x
    using IH [OF that] valid that by (simp add: list_all_iff roundtrips_def)
  from collect_roundtrip [of vs "value_to_json t" "value_from_json t", OF this]
  obtain js where "collect (map (value_to_json t) vs) = Inr js"
    "collect (map (value_from_json t) js) = Inr vs" by blast
  then show ?thesis by (simp add: roundtrips_def)
qed

lemma roundtrips_TDict:
  assumes IH: "\<And>kv. kv \<in> set kvs \<Longrightarrow> valid_value t (snd kv) \<Longrightarrow> roundtrips t (snd kv)"
      and valid: "valid_value (TDict t) (VDict kvs)"
  shows "roundtrips (TDict t) (VDict kvs)"
proof -
  let ?f = "\<lambda>kv. case value_to_json t (snd kv) of
                    Inl e \<Rightarrow> Inl e
                  | Inr j \<Rightarrow> Inr (fst kv, j)"
  let ?g = "\<lambda>kj. case value_from_json t (snd kj) of
                    Inl e \<Rightarrow> Inl e
                  | Inr v \<Rightarrow> Inr (fst kj, v)"
  have "\<exists>y. ?f kv = Inr y \<and> ?g y = Inr kv" if "kv \<in> set kvs" for kv
  proof -
    from IH [OF that] valid that have "roundtrips t (snd kv)" by (simp add: list_all_iff)
    then obtain j where "value_to_json t (snd kv) = Inr j" "value_from_json t j = Inr (snd kv)"
      by (rule roundtrips_stored)
    then have "?f kv = Inr (fst kv, j) \<and> ?g (fst kv, j) = Inr kv" by simp
    then show ?thesis by blast
  qed
  from collect_roundtrip [of kvs ?f ?g, OF this]
  obtain d where "collect (map ?f kvs) = Inr d" "collect (map ?g d) = Inr kvs" by blast
  then show ?thesis by (simp add: roundtrips_def)
qed

lemma roundtrips_TDataclass:
  assumes IH: "\<And>f x. f \<in> set (cls_fields c) \<Longrightarrow> map_of vals (field_name f) = Some x \<Longrightarrow>
                 valid_value (field_type f) x \<Longrightarrow> roundtrips (field_type f) x"
      and valid: "valid_value (TDataclass c) (VObj c vals)"
  shows "roundtrips (TDataclass c) (VObj c vals)"
proof -
  let ?fs = "cls_fields c"
  let ?F = "\<lambda>f. case map_of vals (field_name f) of
                   None \<Rightarrow> Inl AttributeError
                 | Some x \<Rightarrow>
                     (case value_to_json (field_type f) x of
                        Inl e \<Rightarrow> Inl e
                      | Inr j \<Rightarrow> Inr (storage_name f, j))"
  let ?G = "\<lambda>d f. case (case map_of d (storage_name f) of
                           None \<Rightarrow> field_default f
                         | Some x \<Rightarrow> Some x) of
                     None \<Rightarrow> Inl TypeError
                   | Some x \<Rightarrow>
                       (case value_from_json (field_type f) x of
                          Inl e \<Rightarrow> Inl e
                        | Inr v \<Rightarrow> Inr (field_name f, v))"
  from valid have dn: "distinct (map field_name ?fs)"
    and ds: "distinct (map storage_name ?fs)"
    and names: "map fst vals = map field_name ?fs"
    and ok: "\<forall>f\<in>set ?fs. case map_of vals (field_name f) of
                             None \<Rightarrow> False
                           | Some x \<Rightarrow> valid_value (field_type f) x"
    by (simp_all add: list_all_iff)
  have per: "\<exists>x j. map_of vals (field_name f) = Some x \<and>
                   value_to_json (field_type f) x = Inr j \<and>
                   value_from_json (field_type f) j = Inr x" if m: "f \<in> set ?fs" for f
  proof -
    from ok m obtain x where x: "map_of vals (field_name f) = Some x"
      and vx: "valid_value (field_type f) x"
      by (cases "map_of vals (field_name f)") auto
    from IH [OF m x vx] obtain j where
      "value_to_json (field_type f) x = Inr j" "value_from_json (field_type f) j = Inr x"
      by (rule roundtrips_stored)
    with x show ?thesis by blast
  qed
  define X where "X f = the (map_of vals (field_name f))" for f
  have X: "map_of vals (field_name f) = Some (X f)" if "f \<in> set ?fs" for f
    using per [OF that] by (auto simp: X_def)
  have "\<exists>j. value_to_json (field_type f) (X f) = Inr j \<and>
            value_from_json (field_type f) j = Inr (X f)" if "f \<in> set ?fs" for f
    using per [OF that] X [OF that] by auto
  then have "\<forall>f\<in>set ?fs. \<exists>j. value_to_json (field_type f) (X f) = Inr j \<and>
            value_from_json (field_type f) j = Inr (X f)" by blast
  from bchoice [OF this] obtain J where
    J: "\<forall>f\<in>set ?fs. value_to_json (field_type f) (X f) = Inr (J f) \<and>
                      value_from_json (field_type f) (J f) = Inr (X f)" by blast
  let ?d = "map (\<lambda>f. (storage_name f, J f)) ?fs"
  have 1: "collect (map ?F ?fs) = Inr ?d"
  proof (rule collect_map_Inr)
    fix f assume m: "f \<in> set ?fs"
    from X [OF m] J m show "?F f = Inr (storage_name f, J f)" by simp
  qed
  have 2: "collect (map (?G ?d) ?fs) = Inr (map (\<lambda>f. (field_name f, X f)) ?fs)"
  proof (rule collect_map_Inr)
    fix f assume m: "f \<in> set ?fs"
    have "map_of ?d (storage_name f) = Some (J f)"
      by (rule map_of_storage [OF ds m])
    with J m show "?G ?d f = Inr (field_name f, X f)" by simp
  qed
  have "map (\<lambda>f. (field_name f, X f)) ?fs
          = map (\<lambda>k. (k, the (map_of vals k))) (map fst vals)"
    by (simp add: names X_def comp_def)
  also have "\<dots> = vals"
    using dn names by (intro alist_rebuild) simp
  finally have 3: "map (\<lambda>f. (field_name f, X f)) ?fs = vals" .
  have to: "value_to_json (TDataclass c) (VObj c vals) = Inr (JDict ?d)"
    using 1 by simp
  have "value_from_json (TDataclass c) (JDict ?d) = Inr (VObj c vals)"
    using 2 3 by simp
  with to show ?thesis unfolding roundtrips_def by blast
qed

lemma value_roundtrip: "valid_value t v \<Longrightarrow> roundtrips t v"
proof (induction t v rule: valid_value.induct)
  case (1 v)
  then show ?case by (rule roundtrips_TInt)
next
  case (2 v)
  then show ?case by (rule roundtrips_TFloat)
next
  case (3 v)
  then show ?case by (rule roundtrips_TStr)
next
  case (4 v)
  then show ?case by (rule roundtrips_TBool)
next
  case (5 members v)
  then show ?case by (rule roundtrips_TEnum)
next
  case (6 t v)
  show ?case
    by (rule roundtrips_TOptional) (use 6 in simp_all)
next
  case (7 t v)
  from "7.prems" obtain vs where v: "v = VList vs" by (cases v) simp_all
  show ?case
    unfolding v
  proof (rule roundtrips_TList)
    show "valid_value (TList t) (VList vs)" using "7.prems" v by simp
    show "roundtrips t x" if "x \<in> set vs" "valid_value t x" for x
      using "7.IH" [OF v that] .
  qed
next
  case (8 t v)
  from "8.prems" obtain kvs where v: "v = VDict kvs" by (cases v) simp_all
  show ?case
    unfolding v
  proof (rule roundtrips_TDict)
    show "valid_value (TDict t) (VDict kvs)" using "8.prems" v by simp
    show "roundtrips t (snd kv)" if "kv \<in> set kvs" "valid_value t (snd kv)" for kv
      using "8.IH" [OF v that] .
  qed
next
  case (9 c v)
  from "9.prems" obtain c' vals where v: "v = VObj c' vals" by (cases v) simp_all
  with "9.prems" have c': "c' = c" by simp
  show ?case
    unfolding v c'
  proof (rule roundtrips_TDataclass)
    show "valid_value (TDataclass c) (VObj c vals)" using "9.prems" v c' by simp
    show "roundtrips (field_type f) x"
      if "f \<in> set (cls_fields c)" "map_of vals (field_name f) = Some x"
         "valid_value (field_type f) x" for f x
      using "9.IH" [OF v that] .
  qed
qed

lemma dataclass_roundtrip:
  assumes valid: "valid_instance x"
      and enc: "dataclass_to_dict x = Inr d"
  shows "dataclass_from_dict (obj_type x) d = Inr x"
proof -
  from valid have "roundtrips (TDataclass (obj_type x)) (VObj (obj_type x) (obj_fields x))"
    unfolding valid_instance_def by (rule value_roundtrip)
  then obtain j where
    j: "value_to_json (TDataclass (obj_type x)) (VObj (obj_type x) (obj_fields x)) = Inr j"
       "value_from_json (TDataclass (obj_type x)) j = Inr (VObj (obj_type x) (obj_fields x))"
    by (rule roundtrips_stored)
  from enc j(1) have "j = JDict d"
    unfolding dataclass_to_dict_def by (cases j) simp_all
  with j(2) show ?thesis
    unfolding dataclass_from_dict_def by simp
qed

subsection \<open>Encode then decode\<close>

lemma prot_roundtrip:
  assumes json: "\<forall>v. json_loads L (json_dumps L v) = Some v"
      and valid: "valid_instance x"
      and enc: "prot_encode L p x ids_by_type = Inr data"
      and cons: "\<forall>c i. map_of ids_by_type c = Some i \<longrightarrow> map_of types_by_id i = Some c"
  shows "prot_decode L p data types_by_id is_response = decode_special_cases p x is_response"
proof -
  from enc obtain m_id where id: "map_of ids_by_type (obj_type x) = Some m_id"
    by (auto simp: prot_encode_def split: option.splits)
  from enc id obtain msgdict where md: "dataclass_to_dict x = Inr msgdict"
    by (auto simp: prot_encode_def split: sum.splits)
  have rt: "dataclass_from_dict (obj_type x) msgdict = Inr x"
    by (rule dataclass_roundtrip [OF valid md])
  have tp: "map_of types_by_id m_id = Some (obj_type x)"
    using cons id by simp
  show ?thesis
  proof (cases "type_key p")
    case None
    with enc id md have "data = json_dumps L (JDict [(''m'', JDict msgdict), (''t'', JInt m_id)])"
      by (simp add: prot_encode_def)
    then show ?thesis
      using json None tp rt by (simp add: prot_decode_def)
  next
    case (Some k)
    with enc id md have free: "map_of msgdict k = None"
      and data: "data = json_dumps L (JDict (AList.update k (JInt m_id) msgdict))"
      by (auto simp: prot_encode_def split: if_splits)
    from free have notin: "k \<notin> fst ` set msgdict"
      by (simp add: map_of_eq_None_iff)
    have pop: "AList.delete k (AList.update k (JInt m_id) msgdict) = msgdict"
      using notin by (simp add: AList.delete_update_same)
    show ?thesis
      using json Some data tp rt pop by (simp add: prot_decode_def AList.update_conv')
  qed
qed

subsection \<open>What \<open>__init__\<close> guarantees\<close>

lemma reg_if_not_by_type:
  "reg_if_not tp k (bi, bt) = Inr (bi', bt') \<Longrightarrow> map_of bt' c = Some i \<Longrightarrow>
   map_of bt c = Some i \<or> c = tp"
  by (auto simp: reg_if_not_def AList.update_conv' split: if_splits)

lemma init_message_consistent:
  assumes "MessageProtocol_init message_types response_types tk pce lre ts = Inr p"
  shows "\<forall>c i. map_of (message_ids_by_type p) c = Some i \<longrightarrow>
               map_of (message_types_by_id p) i = Some c"
proof -
  from assms have "register_types Message message_types ([], []) =
       Inr (message_types_by_id p, message_ids_by_type p)"
    by (rule MessageProtocol_init_steps)
  from register_types_consistent [OF this] show ?thesis by simp
qed

lemma init_message_is_Message:
  assumes "MessageProtocol_init message_types response_types tk pce lre ts = Inr p"
      and "map_of (message_ids_by_type p) c = Some i"
  shows "issubclass c Message"
proof -
  from assms(1) have r: "register_types Message message_types ([], []) =
       Inr (message_types_by_id p, message_ids_by_type p)"
    by (rule MessageProtocol_init_steps)
  from register_types_by_type [OF r assms(2)] have "(i, c) \<in> set message_types" by simp
  from register_types_checks [OF r this] show ?thesis by simp
qed

lemma init_response_registry:
  assumes "MessageProtocol_init message_types response_types tk pce lre ts = Inr p"
  shows "\<forall>c i. map_of (response_ids_by_type p) c = Some i \<longrightarrow>
               map_of (response_types_by_id p) i = Some c"
    and "map_of (response_ids_by_type p) ErrorResponse \<noteq> None"
    and "map_of (response_ids_by_type p) c = Some i \<Longrightarrow> issubclass c Response"
proof -
  from assms obtain r0 r1 where
    user: "register_types Response response_types ([], []) = Inr r0"
    and err: "reg_if_not ErrorResponse (- 1) r0 = Inr r1"
    and emp: "reg_if_not EmptyResponse (- 2) r1
                = Inr (response_types_by_id p, response_ids_by_type p)"
    by (rule MessageProtocol_init_steps)
  obtain bi0 bt0 where r0: "r0 = (bi0, bt0)" by (cases r0)
  obtain bi1 bt1 where r1: "r1 = (bi1, bt1)" by (cases r1)
  note user' = user [unfolded r0]
  note err' = err [unfolded r0 r1]
  note emp' = emp [unfolded r1]
  have cons0: "\<forall>c i. map_of bt0 c = Some i \<longrightarrow> map_of bi0 i = Some c"
    using register_types_consistent [OF user'] by simp
  have cons1: "\<forall>c i. map_of bt1 c = Some i \<longrightarrow> map_of bi1 i = Some c"
    using reg_if_not_consistent [OF err' cons0] .
  show "\<forall>c i. map_of (response_ids_by_type p) c = Some i \<longrightarrow>
               map_of (response_types_by_id p) i = Some c"
    using reg_if_not_consistent [OF emp' cons1] .
  have "map_of bt1 ErrorResponse \<noteq> None"
    by (rule reg_if_not_registered [OF err'])
  then show "map_of (response_ids_by_type p) ErrorResponse \<noteq> None"
    using reg_if_not_other [OF emp' ErrorResponse_neq_EmptyResponse] by simp
  assume c: "map_of (response_ids_by_type p) c = Some i"
  from reg_if_not_by_type [OF emp' c] have "map_of bt1 c = Some i \<or> c = EmptyResponse" .
  then show "issubclass c Response"
  proof
    assume "map_of bt1 c = Some i"
    from reg_if_not_by_type [OF err' this] have "map_of bt0 c = Some i \<or> c = ErrorResponse" .
    then show ?thesis
    proof
      assume b: "map_of bt0 c = Some i"
      from register_types_by_type [OF user' b] have "(i, c) \<in> set response_types" by simp
      from register_types_checks [OF user this] show ?thesis by simp
    next
      assume "c = ErrorResponse"
      then show ?thesis by (simp add: ErrorResponse_def Response_def)
    qed
  next
    assume "c = EmptyResponse"
    then show ?thesis by (simp add: EmptyResponse_def Response_def)
  qed
qed

subsection \<open>The two reserved responses\<close>

lemma valid_ErrorResponse_new: "valid_instance (ErrorResponse_new m et)"
  by (cases et) (simp_all add: valid_instance_def ErrorResponse_new_def ErrorResponse_def)

lemma dataclass_to_dict_ErrorResponse_new:
  "dataclass_to_dict (ErrorResponse_new m et)
     = Inr [(''m'', JStr m), (''t'', JInt (ErrorType_value et))]"
  by (cases et) (simp_all add: dataclass_to_dict_def ErrorResponse_new_def ErrorResponse_def)

lemma special_case_ErrorResponse_new:
  "decode_special_cases p (ErrorResponse_new m et) True =
     Inl (if preserve_clean_errors p \<and> et = CLEAN then CleanError m else RemoteError m)"
  by (cases et)
     (simp_all add: decode_special_cases_def isinstance_def ErrorResponse_new_def
        ErrorResponse_def EmptyResponse_def Response_def)

lemma decode_encoded_ErrorResponse:
  assumes init: "MessageProtocol_init message_types response_types tk pce lre ts = Inr p"
      and json: "\<forall>v. json_loads L (json_dumps L v) = Some v"
      and enc: "encode_response L p (ErrorResponse_new m et) = Inr data"
  shows "decode_response L p data =
           Inl (if preserve_clean_errors p \<and> et = CLEAN then CleanError m else RemoteError m)"
proof -
  have "prot_decode L p data (response_types_by_id p) True
          = decode_special_cases p (ErrorResponse_new m et) True"
    using prot_roundtrip [OF json valid_ErrorResponse_new enc [unfolded encode_response_def]
            init_response_registry(1) [OF init]] .
  then show ?thesis
    by (simp add: decode_response_def special_case_ErrorResponse_new)
qed

lemma encode_ErrorResponse_succeeds:
  assumes init: "MessageProtocol_init message_types response_types tk pce lre ts = Inr p"
      and tk: "tk \<noteq> Some ''m''" "tk \<noteq> Some ''t''"
  shows "\<exists>data. encode_response L p (ErrorResponse_new m et) = Inr data"
proof -
  from init_response_registry(2) [OF init]
  obtain i where i: "map_of (response_ids_by_type p) ErrorResponse = Some i" by auto
  from init have k: "type_key p = tk" by (rule MessageProtocol_init_steps)
  have t: "obj_type (ErrorResponse_new m et) = ErrorResponse"
    by (simp add: ErrorResponse_new_def)
  show ?thesis
    using i k tk
    by (cases tk)
       (auto simp: encode_response_def prot_encode_def t dataclass_to_dict_ErrorResponse_new)
qed

subsection \<open>Encoding and decoding\<close>

text \<open>
  C1, as amended.  In a protocol built by \<open>__init__\<close>, with a JSON library that reads
  back what it writes, every instance with valid field values (nested ones included)
  of a registered type that is neither \<open>EmptyResponse\<close>, \<open>ErrorResponse\<close> nor a
  subclass of them, and whose encoding succeeds, decodes to itself: as a message through
  \<open>encode_message\<close> and \<open>decode_message\<close>, as a response through \<open>encode_response\<close>
  and \<open>decode_response\<close>.  The encoding of an \<open>EmptyResponse\<close> decodes to \<open>None\<close>,
  and decoding the encoding of an \<open>ErrorResponse\<close> raises \<open>CleanError\<close> or
  \<open>RemoteError\<close> with its message.
\<close>

theorem roundtrip_except_reserved:
  assumes init: "MessageProtocol_init message_types response_types tk pce lre ts = Inr p"
      and json: "\<forall>v. json_loads L (json_dumps L v) = Some v"
      and valid: "valid_instance x"
  shows "(encode_message L p x = Inr data \<and>
            \<not> isinstance x EmptyResponse \<and> \<not> isinstance x ErrorResponse
          \<longrightarrow> decode_message L p data = Inr x) \<and>
         (encode_response L p x = Inr data \<and>
            \<not> isinstance x EmptyResponse \<and> \<not> isinstance x ErrorResponse
          \<longrightarrow> decode_response L p data = Inr (Some x)) \<and>
         (encode_response L p x = Inr data \<and> isinstance x EmptyResponse
          \<longrightarrow> decode_response L p data = Inr None) \<and>
         (encode_response L p (ErrorResponse_new m et) = Inr data
          \<longrightarrow> decode_response L p data =
                Inl (if pce \<and> et = CLEAN then CleanError m else RemoteError m))"
proof (intro conjI impI)
  assume a: "encode_message L p x = Inr data \<and>
            \<not> isinstance x EmptyResponse \<and> \<not> isinstance x ErrorResponse"
  then have enc: "prot_encode L p x (message_ids_by_type p) = Inr data"
    by (simp add: encode_message_def)
  from enc obtain i where "map_of (message_ids_by_type p) (obj_type x) = Some i"
    by (auto simp: prot_encode_def split: option.splits)
  from init_message_is_Message [OF init this] have msg: "isinstance x Message"
    by (simp add: isinstance_def)
  have "prot_decode L p data (message_types_by_id p) False = decode_special_cases p x False"
    by (rule prot_roundtrip [OF json valid enc init_message_consistent [OF init]])
  with a msg show "decode_message L p data = Inr x"
    by (simp add: decode_message_def decode_special_cases_def)
next
  assume a: "encode_response L p x = Inr data \<and>
            \<not> isinstance x EmptyResponse \<and> \<not> isinstance x ErrorResponse"
  then have enc: "prot_encode L p x (response_ids_by_type p) = Inr data"
    by (simp add: encode_response_def)
  from enc obtain i where "map_of (response_ids_by_type p) (obj_type x) = Some i"
    by (auto simp: prot_encode_def split: option.splits)
  from init_response_registry(3) [OF init this] have rsp: "isinstance x Response"
    by (simp add: isinstance_def)
  have "prot_decode L p data (response_types_by_id p) True = decode_special_cases p x True"
    by (rule prot_roundtrip [OF json valid enc init_response_registry(1) [OF init]])
  with a rsp show "decode_response L p data = Inr (Some x)"
    by (simp add: decode_response_def decode_special_cases_def)
next
  assume a: "encode_response L p x = Inr data \<and> isinstance x EmptyResponse"
  then have enc: "prot_encode L p x (response_ids_by_type p) = Inr data"
    by (simp add: encode_response_def)
  have "prot_decode L p data (response_types_by_id p) True = decode_special_cases p x True"
    by (rule prot_roundtrip [OF json valid enc init_response_registry(1) [OF init]])
  with a show "decode_response L p data = Inr None"
    by (simp add: decode_response_def decode_special_cases_def)
next
  assume a: "encode_response L p (ErrorResponse_new m et) = Inr data"
  from init have "preserve_clean_errors p = pce" by (rule MessageProtocol_init_steps)
  with decode_encoded_ErrorResponse [OF init json a]
  show "decode_response L p data =
          Inl (if pce \<and> et = CLEAN then CleanError m else RemoteError m)"
    by simp
qed

lemma document_lib_roundtrip:
  "\<forall>v. json_loads document_lib (json_dumps document_lib v) = Some v"
  by (simp add: document_lib_def)

lemma encode_Ping_5:
  "encode_message document_lib example_protocol (Ping_new 5)
     = Inr (JDict [(''m'', JDict [(''v'', JInt 5)]), (''t'', JInt 1)])"
  by (simp add: encode_message_def prot_encode_def example_protocol_def Ping_new_def
        dataclass_to_dict_def document_lib_def cls_defs)

lemma encode_Pong_pong:
  "encode_response document_lib example_protocol (Pong_new ''pong'')
     = Inr (JDict [(''m'', JDict [(''r'', JStr ''pong'')]), (''t'', JInt 1)])"
  by (simp add: encode_response_def prot_encode_def example_protocol_def Pong_new_def
        dataclass_to_dict_def document_lib_def cls_defs)

lemma encode_EmptyResponse_new:
  "encode_response document_lib example_protocol EmptyResponse_new
     = Inr (JDict [(''m'', JDict []), (''t'', JInt (- 2))])"
  by (simp add: encode_response_def prot_encode_def example_protocol_def EmptyResponse_new_def
        dataclass_to_dict_def document_lib_def cls_defs)

lemma encode_ErrorResponse_no_permission:
  "encode_response document_lib example_protocol (ErrorResponse_new ''no permission'' CLEAN)
     = Inr (JDict [(''m'', JDict [(''m'', JStr ''no permission''), (''t'', JInt 1)]),
                   (''t'', JInt (- 1))])"
  by (simp add: encode_response_def prot_encode_def example_protocol_def ErrorResponse_new_def
        dataclass_to_dict_def document_lib_def cls_defs)

lemma encode_Report_new:
  "encode_message document_lib report_protocol Report_new = Inr Report_wire"
  by (simp add: encode_message_def prot_encode_def report_protocol_def Report_new_def
        Report_wire_def dataclass_to_dict_def document_lib_def cls_defs)

theorem roundtrip_except_reserved_witness:
  "decode_message document_lib example_protocol
     (JDict [(''m'', JDict [(''v'', JInt 5)]), (''t'', JInt 1)]) = Inr (Ping_new 5) \<and>
   decode_message document_lib report_protocol Report_wire = Inr Report_new \<and>
   decode_response document_lib example_protocol
     (JDict [(''m'', JDict [(''r'', JStr ''pong'')]), (''t'', JInt 1)])
       = Inr (Some (Pong_new ''pong'')) \<and>
   decode_response document_lib example_protocol
     (JDict [(''m'', JDict []), (''t'', JInt (- 2))]) = Inr None \<and>
   decode_response document_lib example_protocol
     (JDict [(''m'', JDict [(''m'', JStr ''no permission''), (''t'', JInt 1)]),
             (''t'', JInt (- 1))]) = Inl (CleanError ''no permission'')"
proof -
  note rt = roundtrip_except_reserved [OF example_protocol_init document_lib_roundtrip]
  note rt' = roundtrip_except_reserved [OF report_protocol_init document_lib_roundtrip]
  have v1: "valid_instance (Ping_new 5)"
    and v2: "valid_instance (Pong_new ''pong'')"
    and v3: "valid_instance EmptyResponse_new"
    and v4: "valid_instance Report_new"
    by (simp_all add: valid_instance_def Ping_new_def Pong_new_def EmptyResponse_new_def
          Report_new_def cls_defs)
  have n1: "\<not> isinstance (Ping_new 5) EmptyResponse \<and> \<not> isinstance (Ping_new 5) ErrorResponse"
    and n2: "\<not> isinstance (Pong_new ''pong'') EmptyResponse \<and>
             \<not> isinstance (Pong_new ''pong'') ErrorResponse"
    and n3: "isinstance EmptyResponse_new EmptyResponse"
    and n4: "\<not> isinstance Report_new EmptyResponse \<and> \<not> isinstance Report_new ErrorResponse"
    by (simp_all add: isinstance_def Ping_new_def Pong_new_def EmptyResponse_new_def
          Report_new_def cls_defs)
  from rt [OF v1, of "JDict [(''m'', JDict [(''v'', JInt 5)]), (''t'', JInt 1)]"]
       encode_Ping_5 n1
  have 1: "decode_message document_lib example_protocol
     (JDict [(''m'', JDict [(''v'', JInt 5)]), (''t'', JInt 1)]) = Inr (Ping_new 5)"
    by blast
  from rt' [OF v4, of Report_wire] encode_Report_new n4
  have 5: "decode_message document_lib report_protocol Report_wire = Inr Report_new"
    by blast
  from rt [OF v2, of "JDict [(''m'', JDict [(''r'', JStr ''pong'')]), (''t'', JInt 1)]"]
       encode_Pong_pong n2
  have 2: "decode_response document_lib example_protocol
     (JDict [(''m'', JDict [(''r'', JStr ''pong'')]), (''t'', JInt 1)])
       = Inr (Some (Pong_new ''pong''))"
    by blast
  from rt [OF v3, of "JDict [(''m'', JDict []), (''t'', JInt (- 2))]"]
       encode_EmptyResponse_new n3
  have 3: "decode_response document_lib example_protocol
     (JDict [(''m'', JDict []), (''t'', JInt (- 2))]) = Inr None"
    by blast
  from rt [OF v3, of "JDict [(''m'', JDict [(''m'', JStr ''no permission''), (''t'', JInt 1)]),
             (''t'', JInt (- 1))]" "''no permission''" CLEAN]
       encode_ErrorResponse_no_permission
  have 4: "decode_response document_lib example_protocol
     (JDict [(''m'', JDict [(''m'', JStr ''no permission''), (''t'', JInt 1)]),
             (''t'', JInt (- 1))]) = Inl (CleanError ''no permission'')"
    by simp
  from 1 2 3 4 5 show ?thesis by blast
qed

text \<open>
  C1, as stated, fails: \<open>EmptyResponse\<close> is registered in the worked protocol, and
  decoding the bytes of \<open>EmptyResponse()\<close> yields \<open>None\<close>, not an instance.
\<close>

theorem EmptyResponse_does_not_roundtrip:
  "MessageProtocol_init [(1, Ping), (2, Shutdown)] [(1, Pong)] None True True False
     = Inr example_protocol \<and>
   map_of (response_ids_by_type example_protocol) EmptyResponse = Some (- 2) \<and>
   valid_instance EmptyResponse_new \<and>
   encode_response document_lib example_protocol EmptyResponse_new
     = Inr (JDict [(''m'', JDict []), (''t'', JInt (- 2))]) \<and>
   decode_response document_lib example_protocol
     (JDict [(''m'', JDict []), (''t'', JInt (- 2))]) = Inr None \<and>
   decode_response document_lib example_protocol
     (JDict [(''m'', JDict []), (''t'', JInt (- 2))]) \<noteq> Inr (Some EmptyResponse_new)"
proof -
  have d: "decode_response document_lib example_protocol
     (JDict [(''m'', JDict []), (''t'', JInt (- 2))]) = Inr None"
    by (simp add: decode_response_def prot_decode_def decode_special_cases_def document_lib_def
          example_protocol_def dataclass_from_dict_def isinstance_def cls_defs)
  have v: "valid_instance EmptyResponse_new"
    by (simp add: valid_instance_def EmptyResponse_new_def cls_defs)
  have r: "map_of (response_ids_by_type example_protocol) EmptyResponse = Some (- 2)"
    by (simp add: example_protocol_def cls_defs)
  from d v r example_protocol_init encode_EmptyResponse_new show ?thesis by simp
qed

section \<open>The reserved response types\<close>


text \<open>
  What holds of every protocol that \<open>__init__\<close> builds is the registration itself:
  \<open>ErrorResponse\<close> and \<open>EmptyResponse\<close> are filed under the reserved ids \<open>-1\<close> and
  \<open>-2\<close>, in both directions, whenever the caller did not register them; when the
  caller registered one of them, it stays under an id of the caller's and its reserved
  id stays unused.
\<close>

theorem reserved_ids_registry:
  assumes init: "MessageProtocol_init message_types response_types tk pce lre ts = Inr p"
  shows "(ErrorResponse \<notin> snd ` set response_types \<longrightarrow>
            map_of (response_ids_by_type p) ErrorResponse = Some (- 1) \<and>
            map_of (response_types_by_id p) (- 1) = Some ErrorResponse) \<and>
         (EmptyResponse \<notin> snd ` set response_types \<longrightarrow>
            map_of (response_ids_by_type p) EmptyResponse = Some (- 2) \<and>
            map_of (response_types_by_id p) (- 2) = Some EmptyResponse) \<and>
         (ErrorResponse \<in> snd ` set response_types \<longrightarrow>
            map_of (response_types_by_id p) (- 1) = None \<and>
            (\<exists>i. 0 \<le> i \<and> (i, ErrorResponse) \<in> set response_types \<and>
                 map_of (response_ids_by_type p) ErrorResponse = Some i \<and>
                 map_of (response_types_by_id p) i = Some ErrorResponse)) \<and>
         (EmptyResponse \<in> snd ` set response_types \<longrightarrow>
            map_of (response_types_by_id p) (- 2) = None \<and>
            (\<exists>i. 0 \<le> i \<and> (i, EmptyResponse) \<in> set response_types \<and>
                 map_of (response_ids_by_type p) EmptyResponse = Some i \<and>
                 map_of (response_types_by_id p) i = Some EmptyResponse))"
proof -
  from init obtain r0 r1 where
    user: "register_types Response response_types ([], []) = Inr r0"
    and err: "reg_if_not ErrorResponse (- 1) r0 = Inr r1"
    and emp: "reg_if_not EmptyResponse (- 2) r1 = Inr (response_types_by_id p, response_ids_by_type p)"
    by (rule MessageProtocol_init_steps)
  obtain bi0 bt0 where r0: "r0 = (bi0, bt0)" by (cases r0)
  obtain bi1 bt1 where r1: "r1 = (bi1, bt1)" by (cases r1)
  note u = response_registry_user [OF user [unfolded r0]]
  note err' = err [unfolded r0 r1]
  note emp' = emp [unfolded r1]
  have nonneg0: "map_of bi0 i = Some c \<Longrightarrow> 0 \<le> i" for i c
    using u(1) [of i c] register_types_checks [OF user, of i c] by simp
  have cons0: "\<forall>c i. map_of bt0 c = Some i \<longrightarrow> map_of bi0 i = Some c"
    using register_types_consistent [OF user [unfolded r0]] by simp
  have cons1: "\<forall>c i. map_of bt1 c = Some i \<longrightarrow> map_of bi1 i = Some c"
    using reg_if_not_consistent [OF err' cons0] .
  have cons2: "\<forall>c i. map_of (response_ids_by_type p) c = Some i \<longrightarrow>
                      map_of (response_types_by_id p) i = Some c"
    using reg_if_not_consistent [OF emp' cons1] .
  have none0: "map_of bi0 i = None" if "i < 0" for i
    using nonneg0 [of i] that by (cases "map_of bi0 i") auto
  show ?thesis
  proof (intro conjI impI)
    assume a: "ErrorResponse \<notin> snd ` set response_types"
    then have f0: "map_of bt0 ErrorResponse = None" using u(2) [of ErrorResponse] by simp
    from reg_if_not_fresh [OF err' f0]
    have e1: "map_of bt1 ErrorResponse = Some (- 1)" by simp
    then have "map_of bt1 ErrorResponse \<noteq> None" by simp
    show "map_of (response_ids_by_type p) ErrorResponse = Some (- 1)"
      using reg_if_not_other [OF emp' ErrorResponse_neq_EmptyResponse] e1 by simp
    then show "map_of (response_types_by_id p) (- 1) = Some ErrorResponse"
      using cons2 by simp
  next
    assume a: "EmptyResponse \<notin> snd ` set response_types"
    then have f0: "map_of bt0 EmptyResponse = None" using u(2) [of EmptyResponse] by simp
    have f1: "map_of bt1 EmptyResponse = None"
      using reg_if_not_other [OF err' ErrorResponse_neq_EmptyResponse [symmetric]] f0 by simp
    from reg_if_not_fresh [OF emp' f1]
    show "map_of (response_ids_by_type p) EmptyResponse = Some (- 2)" by simp
    then show "map_of (response_types_by_id p) (- 2) = Some EmptyResponse"
      using cons2 by simp
  next
    assume a: "ErrorResponse \<in> snd ` set response_types"
    then have f0: "map_of bt0 ErrorResponse \<noteq> None" using u(2) [of ErrorResponse] by simp
    from reg_if_not_kept [OF err' f0] have same: "bi1 = bi0" "bt1 = bt0" by simp_all
    have "map_of bi1 (- 1) = None" using none0 [of "- 1"] same by simp
    then show "map_of (response_types_by_id p) (- 1) = None"
      using reg_if_not_other_id [OF emp', of "- 1"] by simp
    from f0 obtain i where i: "map_of bt0 ErrorResponse = Some i" by auto
    from u(3) [OF i] have reg: "(i, ErrorResponse) \<in> set response_types" "0 \<le> i" by simp_all
    have "map_of (response_ids_by_type p) ErrorResponse = Some i"
      using reg_if_not_other [OF emp' ErrorResponse_neq_EmptyResponse] i same by simp
    moreover from this have "map_of (response_types_by_id p) i = Some ErrorResponse"
      using cons2 by simp
    ultimately show "\<exists>i. 0 \<le> i \<and> (i, ErrorResponse) \<in> set response_types \<and>
                 map_of (response_ids_by_type p) ErrorResponse = Some i \<and>
                 map_of (response_types_by_id p) i = Some ErrorResponse"
      using reg by blast
  next
    assume a: "EmptyResponse \<in> snd ` set response_types"
    then have f0: "map_of bt0 EmptyResponse \<noteq> None" using u(2) [of EmptyResponse] by simp
    have f1: "map_of bt1 EmptyResponse \<noteq> None"
      using reg_if_not_other [OF err' ErrorResponse_neq_EmptyResponse [symmetric]] f0 by simp
    from reg_if_not_kept [OF emp' f1]
    have same: "response_types_by_id p = bi1" "response_ids_by_type p = bt1" by simp_all
    have "map_of bi1 (- 2) = None"
      using reg_if_not_other_id [OF err', of "- 2"] none0 [of "- 2"] by simp
    then show "map_of (response_types_by_id p) (- 2) = None" using same by simp
    from f0 obtain i where i: "map_of bt0 EmptyResponse = Some i" by auto
    from u(3) [OF i] have reg: "(i, EmptyResponse) \<in> set response_types" "0 \<le> i" by simp_all
    have "map_of (response_ids_by_type p) EmptyResponse = Some i"
      using reg_if_not_other [OF err' ErrorResponse_neq_EmptyResponse [symmetric]] i same by simp
    moreover from this have "map_of (response_types_by_id p) i = Some EmptyResponse"
      using cons2 by simp
    ultimately show "\<exists>i. 0 \<le> i \<and> (i, EmptyResponse) \<in> set response_types \<and>
                 map_of (response_ids_by_type p) EmptyResponse = Some i \<and>
                 map_of (response_types_by_id p) i = Some EmptyResponse"
      using reg by blast
  qed
qed

theorem reserved_ids_registry_example:
  "MessageProtocol_init [(1, Ping), (2, Shutdown)] [(1, Pong)] None True True False
     = Inr example_protocol \<and>
   ErrorResponse \<notin> snd ` set [(1 :: int, Pong)] \<and>
   EmptyResponse \<notin> snd ` set [(1 :: int, Pong)] \<and>
   map_of (response_ids_by_type example_protocol) ErrorResponse = Some (- 1) \<and>
   map_of (response_types_by_id example_protocol) (- 1) = Some ErrorResponse \<and>
   map_of (response_ids_by_type example_protocol) EmptyResponse = Some (- 2) \<and>
   map_of (response_types_by_id example_protocol) (- 2) = Some EmptyResponse \<and>
   MessageProtocol_init [] [(7, ErrorResponse)] None True True False = Inr explicit_protocol \<and>
   ErrorResponse \<in> snd ` set [(7 :: int, ErrorResponse)] \<and>
   map_of (response_types_by_id explicit_protocol) (- 1) = None \<and>
   map_of (response_ids_by_type explicit_protocol) ErrorResponse = Some 7"
proof -
  have a: "ErrorResponse \<notin> snd ` set [(1 :: int, Pong)]"
    and b: "EmptyResponse \<notin> snd ` set [(1 :: int, Pong)]"
    and c: "ErrorResponse \<in> snd ` set [(7 :: int, ErrorResponse)]"
    by (simp_all add: cls_defs)
  from reserved_ids_registry [OF example_protocol_init] a b
  have 1: "map_of (response_ids_by_type example_protocol) ErrorResponse = Some (- 1)"
    "map_of (response_types_by_id example_protocol) (- 1) = Some ErrorResponse"
    "map_of (response_ids_by_type example_protocol) EmptyResponse = Some (- 2)"
    "map_of (response_types_by_id example_protocol) (- 2) = Some EmptyResponse"
    by blast+
  from reserved_ids_registry [OF explicit_protocol_init] c
  have 2: "map_of (response_types_by_id explicit_protocol) (- 1) = None"
    by blast
  have 3: "map_of (response_ids_by_type explicit_protocol) ErrorResponse = Some 7"
    by (simp add: explicit_protocol_def)
  from a b c 1 2 3 example_protocol_init explicit_protocol_init show ?thesis by blast
qed

lemma init_flags:
  assumes "MessageProtocol_init message_types response_types tk pce lre ts = Inr p"
  shows "type_key p = tk" "preserve_clean_errors p = pce"
        "log_remote_exceptions p = lre" "trusted_sender p = ts"
  using assms unfolding MessageProtocol_init_def
  by (auto split: sum.splits prod.splits if_splits)

lemma valid_EmptyResponse_new: "valid_instance EmptyResponse_new"
  by (simp add: valid_instance_def EmptyResponse_new_def EmptyResponse_def)

text \<open>
  And with a type key that is neither \<open>m\<close> nor \<open>t\<close> (or none), both are encoded and
  decoded at their reserved ids.
\<close>

theorem reserved_ids_codec:
  assumes init: "MessageProtocol_init message_types response_types tk pce lre ts = Inr p"
      and json: "\<forall>v. json_loads L (json_dumps L v) = Some v"
      and tk: "tk \<noteq> Some ''m''" "tk \<noteq> Some ''t''"
      and err: "ErrorResponse \<notin> snd ` set response_types"
      and emp: "EmptyResponse \<notin> snd ` set response_types"
  shows "encode_response L p EmptyResponse_new =
           Inr (json_dumps L
                 (case tk of
                    None \<Rightarrow> JDict [(''m'', JDict []), (''t'', JInt (- 2))]
                  | Some k \<Rightarrow> JDict [(k, JInt (- 2))]))"
    and "decode_response L p
           (json_dumps L
              (case tk of
                 None \<Rightarrow> JDict [(''m'', JDict []), (''t'', JInt (- 2))]
               | Some k \<Rightarrow> JDict [(k, JInt (- 2))])) = Inr None"
    and "encode_response L p (ErrorResponse_new m et) =
           Inr (json_dumps L
                 (case tk of
                    None \<Rightarrow> JDict [(''m'', JDict [(''m'', JStr m),
                                                   (''t'', JInt (ErrorType_value et))]),
                                   (''t'', JInt (- 1))]
                  | Some k \<Rightarrow> JDict [(''m'', JStr m), (''t'', JInt (ErrorType_value et)),
                                     (k, JInt (- 1))]))"
    and "decode_response L p
           (json_dumps L
              (case tk of
                 None \<Rightarrow> JDict [(''m'', JDict [(''m'', JStr m),
                                                (''t'', JInt (ErrorType_value et))]),
                                (''t'', JInt (- 1))]
               | Some k \<Rightarrow> JDict [(''m'', JStr m), (''t'', JInt (ErrorType_value et)),
                                  (k, JInt (- 1))]))
           = Inl (if pce \<and> et = CLEAN then CleanError m else RemoteError m)"
proof -
  from reserved_ids_registry [OF init] err emp
  have ids: "map_of (response_ids_by_type p) ErrorResponse = Some (- 1)"
            "map_of (response_ids_by_type p) EmptyResponse = Some (- 2)"
    by blast+
  note k = init_flags(1) [OF init]
  note flag = init_flags(2) [OF init]
  have t_err: "obj_type (ErrorResponse_new m et) = ErrorResponse"
    by (simp add: ErrorResponse_new_def)
  have d_emp: "dataclass_to_dict EmptyResponse_new = Inr []"
    by (simp add: dataclass_to_dict_def EmptyResponse_new_def EmptyResponse_def)
  have t_emp: "obj_type EmptyResponse_new = EmptyResponse"
    by (simp add: EmptyResponse_new_def)
  show e1: "encode_response L p EmptyResponse_new =
           Inr (json_dumps L
                 (case tk of
                    None \<Rightarrow> JDict [(''m'', JDict []), (''t'', JInt (- 2))]
                  | Some k \<Rightarrow> JDict [(k, JInt (- 2))]))"
    using ids(2) k
    by (cases tk) (simp_all add: encode_response_def prot_encode_def t_emp d_emp)
  show e2: "encode_response L p (ErrorResponse_new m et) =
           Inr (json_dumps L
                 (case tk of
                    None \<Rightarrow> JDict [(''m'', JDict [(''m'', JStr m),
                                                   (''t'', JInt (ErrorType_value et))]),
                                   (''t'', JInt (- 1))]
                  | Some k \<Rightarrow> JDict [(''m'', JStr m), (''t'', JInt (ErrorType_value et)),
                                     (k, JInt (- 1))]))"
    using ids(1) k tk
    by (cases tk)
       (auto simp: encode_response_def prot_encode_def t_err dataclass_to_dict_ErrorResponse_new)
  have "prot_decode L p
           (json_dumps L
              (case tk of
                 None \<Rightarrow> JDict [(''m'', JDict []), (''t'', JInt (- 2))]
               | Some k \<Rightarrow> JDict [(k, JInt (- 2))])) (response_types_by_id p) True
          = decode_special_cases p EmptyResponse_new True"
    by (rule prot_roundtrip [OF json valid_EmptyResponse_new e1 [unfolded encode_response_def]
              init_response_registry(1) [OF init]])
  then show "decode_response L p
           (json_dumps L
              (case tk of
                 None \<Rightarrow> JDict [(''m'', JDict []), (''t'', JInt (- 2))]
               | Some k \<Rightarrow> JDict [(k, JInt (- 2))])) = Inr None"
    by (simp add: decode_response_def decode_special_cases_def isinstance_def
          EmptyResponse_new_def EmptyResponse_def)
  from decode_encoded_ErrorResponse [OF init json e2] flag
  show "decode_response L p
           (json_dumps L
              (case tk of
                 None \<Rightarrow> JDict [(''m'', JDict [(''m'', JStr m),
                                                (''t'', JInt (ErrorType_value et))]),
                                (''t'', JInt (- 1))]
               | Some k \<Rightarrow> JDict [(''m'', JStr m), (''t'', JInt (ErrorType_value et)),
                                  (k, JInt (- 1))]))
           = Inl (if pce \<and> et = CLEAN then CleanError m else RemoteError m)"
    by simp
qed

section \<open>\<open>register_handler\<close>\<close>

lemma alias_args_map: "alias_args (map AType rets) = Inr rets"
  by (induction rets) auto

lemma alias_args_only_types: "alias_args targs = Inr rets \<Longrightarrow> targs = map AType rets"
  by (induction targs arbitrary: rets rule: alias_args.induct) (auto split: sum.splits)

lemma alias_args_Inr: "alias_args targs = Inr rets \<longleftrightarrow> targs = map AType rets"
  using alias_args_map alias_args_only_types by auto

lemma declared_responsetypes_Inr:
  "declared_responsetypes anns = Inr responsetypes \<longleftrightarrow>
     (\<exists>rets.
        (map_of anns ''return'' = Some (AGenericAlias (map AType rets)) \<or>
         (\<exists>ret. map_of anns ''return'' = Some (AType ret) \<and> rets = [ret])) \<and>
        responsetypes = map (\<lambda>c. if c = NoneType then EmptyResponse else c) rets)"
proof
  assume "declared_responsetypes anns = Inr responsetypes"
  then show "\<exists>rets.
        (map_of anns ''return'' = Some (AGenericAlias (map AType rets)) \<or>
         (\<exists>ret. map_of anns ''return'' = Some (AType ret) \<and> rets = [ret])) \<and>
        responsetypes = map (\<lambda>c. if c = NoneType then EmptyResponse else c) rets"
    unfolding declared_responsetypes_def
    by (auto split: option.splits ann.splits sum.splits dest!: alias_args_only_types)
next
  assume "\<exists>rets.
        (map_of anns ''return'' = Some (AGenericAlias (map AType rets)) \<or>
         (\<exists>ret. map_of anns ''return'' = Some (AType ret) \<and> rets = [ret])) \<and>
        responsetypes = map (\<lambda>c. if c = NoneType then EmptyResponse else c) rets"
  then show "declared_responsetypes anns = Inr responsetypes"
    unfolding declared_responsetypes_def
    by (auto simp: alias_args_map)
qed

text \<open>
  C7, as amended.  \<open>register_handler\<close> succeeds exactly when the argument names of the
  callable are \<open>['self', 'msg']\<close>, its \<open>msg\<close> hint is a class that subclasses
  \<open>Message\<close>, its \<open>return\<close> hint is a class or a generic alias whose arguments are all
  classes, the message type is registered in the protocol, it has no handler yet, and
  the declared return types, with \<open>type(None)\<close> read as \<open>EmptyResponse\<close>, equal
  \<open>get_response_types()\<close> as sets; it then stores the callable under the message type.
  In every other case it fails.
\<close>

theorem register_handler_succeeds_iff:
  "register_handler r call = Inr r' \<longleftrightarrow>
     call_args call = [''self'', ''msg''] \<and>
     (\<exists>msgtype rets.
        map_of (call_anns call) ''msg'' = Some (AType msgtype) \<and>
        issubclass msgtype Message \<and>
        (map_of (call_anns call) ''return'' = Some (AGenericAlias (map AType rets)) \<or>
         (\<exists>ret. map_of (call_anns call) ''return'' = Some (AType ret) \<and> rets = [ret])) \<and>
        map_of (message_ids_by_type (receiver_protocol r)) msgtype \<noteq> None \<and>
        map_of (handlers r) msgtype = None \<and>
        set (map (\<lambda>c. if c = NoneType then EmptyResponse else c) rets)
          = set (get_response_types msgtype) \<and>
        r' = r\<lparr>handlers := AList.update msgtype call (handlers r)\<rparr>)"
  (is "?lhs \<longleftrightarrow> ?rhs")
proof
  assume ok: ?lhs
  then have args: "call_args call = [''self'', ''msg'']"
    by (auto simp: register_handler_def split: if_splits)
  from ok args obtain msgtype where
    msg: "map_of (call_anns call) ''msg'' = Some (AType msgtype)"
    by (auto simp: register_handler_def split: option.splits ann.splits)
  from ok args msg have sub: "issubclass msgtype Message"
    by (auto simp: register_handler_def split: if_splits)
  from ok args msg sub obtain responsetypes where
    decl: "declared_responsetypes (call_anns call) = Inr responsetypes"
    by (auto simp: register_handler_def split: sum.splits)
  from ok args msg sub decl
  have rest: "map_of (message_ids_by_type (receiver_protocol r)) msgtype \<noteq> None"
             "map_of (handlers r) msgtype = None"
             "set responsetypes = set (get_response_types msgtype)"
             "r' = r\<lparr>handlers := AList.update msgtype call (handlers r)\<rparr>"
    by (auto simp: register_handler_def split: if_splits)
  from decl obtain rets where
    rets: "map_of (call_anns call) ''return'' = Some (AGenericAlias (map AType rets)) \<or>
           (\<exists>ret. map_of (call_anns call) ''return'' = Some (AType ret) \<and> rets = [ret])"
          "responsetypes = map (\<lambda>c. if c = NoneType then EmptyResponse else c) rets"
    unfolding declared_responsetypes_Inr by blast
  from args msg sub rets rest show ?rhs by blast
next
  assume ?rhs
  then obtain msgtype rets where
    args: "call_args call = [''self'', ''msg'']"
    and msg: "map_of (call_anns call) ''msg'' = Some (AType msgtype)"
    and sub: "issubclass msgtype Message"
    and ret: "map_of (call_anns call) ''return'' = Some (AGenericAlias (map AType rets)) \<or>
              (\<exists>ret. map_of (call_anns call) ''return'' = Some (AType ret) \<and> rets = [ret])"
    and reg: "map_of (message_ids_by_type (receiver_protocol r)) msgtype \<noteq> None"
    and free: "map_of (handlers r) msgtype = None"
    and same: "set (map (\<lambda>c. if c = NoneType then EmptyResponse else c) rets)
                 = set (get_response_types msgtype)"
    and r': "r' = r\<lparr>handlers := AList.update msgtype call (handlers r)\<rparr>"
    by blast
  from ret have decl: "declared_responsetypes (call_anns call)
                  = Inr (map (\<lambda>c. if c = NoneType then EmptyResponse else c) rets)"
    unfolding declared_responsetypes_Inr by blast
  from args msg sub decl reg free same r' show ?lhs
    by (simp add: register_handler_def)
qed

lemmas handler_defs = handle_ping_def handle_shutdown_def handle_shutdown_crash_def
  handle_ping_optional_def handle_shutdown_misnamed_def

theorem register_handler_succeeds_iff_witness:
  "register_handler \<lparr>receiver_protocol = example_protocol, handlers = []\<rparr> handle_shutdown
     = Inr \<lparr>receiver_protocol = example_protocol, handlers = [(Shutdown, handle_shutdown)]\<rparr> \<and>
   register_handler \<lparr>receiver_protocol = example_protocol, handlers = []\<rparr> handle_ping
     = Inr \<lparr>receiver_protocol = example_protocol, handlers = [(Ping, handle_ping)]\<rparr> \<and>
   register_handler \<lparr>receiver_protocol = example_protocol, handlers = [(Ping, handle_ping)]\<rparr>
       handle_ping = Inl TypeError \<and>
   register_handler \<lparr>receiver_protocol = keyed_protocol, handlers = []\<rparr> handle_ping
     = Inl TypeError \<and>
   register_handler \<lparr>receiver_protocol = example_protocol, handlers = []\<rparr>
       handle_ping_optional = Inl TypeError"
proof -
  let ?r0 = "\<lparr>receiver_protocol = example_protocol,
              handlers = ([] :: (cls \<times> unit handler_call) list)\<rparr>"
  have 1: "register_handler ?r0 handle_shutdown
     = Inr \<lparr>receiver_protocol = example_protocol, handlers = [(Shutdown, handle_shutdown)]\<rparr>"
    unfolding register_handler_succeeds_iff
    by (rule conjI, simp add: handle_shutdown_def, rule exI [of _ Shutdown],
        rule exI [of _ "[NoneType]"])
       (simp add: handle_shutdown_def example_protocol_def get_response_types_def cls_defs)
  have 2: "register_handler ?r0 handle_ping
     = Inr \<lparr>receiver_protocol = example_protocol, handlers = [(Ping, handle_ping)]\<rparr>"
    unfolding register_handler_succeeds_iff
    by (rule conjI, simp add: handle_ping_def, rule exI [of _ Ping], rule exI [of _ "[Pong]"])
       (simp add: handle_ping_def example_protocol_def get_response_types_def cls_defs)
  have 3: "register_handler \<lparr>receiver_protocol = example_protocol,
             handlers = [(Ping, handle_ping)]\<rparr> handle_ping = Inl TypeError"
    by (simp add: register_handler_def declared_responsetypes_def handle_ping_def
          example_protocol_def get_response_types_def cls_defs)
  have 4: "register_handler \<lparr>receiver_protocol = keyed_protocol, handlers = []\<rparr> handle_ping
     = Inl TypeError"
    by (simp add: register_handler_def declared_responsetypes_def handle_ping_def
          keyed_protocol_def cls_defs)
  have 5: "register_handler ?r0 handle_ping_optional = Inl TypeError"
    by (simp add: register_handler_def declared_responsetypes_def handle_ping_optional_def
          example_protocol_def get_response_types_def cls_defs)
  from 1 2 3 4 5 show ?thesis by blast
qed

text \<open>
  C7, as stated, fails in its last part: a handler for \<open>Shutdown\<close> whose argument is
  called \<open>message\<close> is refused with \<open>ValueError\<close>, although \<open>Shutdown\<close> is registered,
  has no handler, and the declared return type \<open>None\<close> matches
  \<open>Shutdown.get_response_types()\<close>.
\<close>

theorem register_handler_refuses_misnamed_argument:
  "map_of (message_ids_by_type example_protocol) Shutdown = Some 2 \<and>
   map_of (handlers \<lparr>receiver_protocol = example_protocol,
                     handlers = ([] :: (cls \<times> unit handler_call) list)\<rparr>) Shutdown = None \<and>
   declared_responsetypes (call_anns handle_shutdown_misnamed) = Inr [EmptyResponse] \<and>
   set [EmptyResponse] = set (get_response_types Shutdown) \<and>
   register_handler \<lparr>receiver_protocol = example_protocol, handlers = []\<rparr>
       handle_shutdown_misnamed = Inl ValueError"
  by (simp add: register_handler_def declared_responsetypes_def handle_shutdown_misnamed_def
        example_protocol_def get_response_types_def cls_defs)

section \<open>\<open>handle_raw_message\<close>\<close>

lemma decode_message_is_Message:
  "decode_message L p msg = Inr m \<Longrightarrow> issubclass (obj_type m) Message"
  by (auto simp: decode_message_def isinstance_def split: sum.splits option.splits if_splits)

text \<open>
  C4.  When the handler raises an exception that is not a \<open>CleanError\<close>, what
  \<open>handle_raw_message\<close> returns is the encoding of an \<open>ErrorResponse\<close> of kind \<open>OTHER\<close>
  whose message is the fixed text \<open>An unknown error has occurred.\<close> on an untrusted
  protocol, whatever the exception was, and the formatted traceback on a trusted one.
\<close>

theorem untrusted_error_text:
  assumes "decode_message L (receiver_protocol r) msg = Inr msg_decoded"
      and "map_of (handlers r) (obj_type msg_decoded) = Some handler"
      and "call_fn handler bound_obj msg_decoded = Inl exc"
      and "\<not> is_CleanError exc"
  shows "snd (handle_raw_message L r bound_obj msg) =
           encode_response L (receiver_protocol r)
             (ErrorResponse_new
                (if trusted_sender (receiver_protocol r) then format_exc L exc
                 else ''An unknown error has occurred.'') OTHER)"
proof -
  have "handle_try L r bound_obj msg = Inl exc"
    using assms(1-3) decode_message_is_Message [OF assms(1)]
    by (simp add: handle_try_def)
  then show ?thesis
    using assms(4) by (simp add: handle_raw_message_def handle_except_def)
qed

lemma shutdown_wire_decodes:
  "decode_message document_lib (example_protocol\<lparr>trusted_sender := t\<rparr>)
     (JDict [(''m'', JDict []), (''t'', JInt 2)]) = Inr Shutdown_new"
  by (simp add: decode_message_def prot_decode_def decode_special_cases_def document_lib_def
        example_protocol_def dataclass_from_dict_def isinstance_def Shutdown_new_def cls_defs)

theorem untrusted_error_text_witness:
  "snd (handle_raw_message document_lib (crash_receiver False) ()
          (JDict [(''m'', JDict []), (''t'', JInt 2)])) =
     Inr (JDict [(''m'', JDict [(''m'', JStr ''An unknown error has occurred.''),
                               (''t'', JInt 0)]),
                 (''t'', JInt (- 1))]) \<and>
   snd (handle_raw_message document_lib (crash_receiver True) ()
          (JDict [(''m'', JDict []), (''t'', JInt 2)])) =
     Inr (JDict [(''m'', JDict [(''m'', JStr ''Traceback (most recent call last): secret''),
                               (''t'', JInt 0)]),
                 (''t'', JInt (- 1))])"
proof -
  have h: "map_of (handlers (crash_receiver t)) (obj_type Shutdown_new)
             = Some handle_shutdown_crash" for t
    by (simp add: crash_receiver_def Shutdown_new_def)
  have c: "call_fn handle_shutdown_crash () Shutdown_new = Inl (OtherException ''secret'')"
    by (simp add: handle_shutdown_crash_def)
  have d: "decode_message document_lib (receiver_protocol (crash_receiver t))
             (JDict [(''m'', JDict []), (''t'', JInt 2)]) = Inr Shutdown_new" for t
    using shutdown_wire_decodes [of t] by (simp add: crash_receiver_def)
  have n: "\<not> is_CleanError (OtherException ''secret'')" by simp
  note u = untrusted_error_text [OF d h c n]
  show ?thesis
    using u [of False] u [of True]
    by (simp add: crash_receiver_def encode_response_def prot_encode_def example_protocol_def
          dataclass_to_dict_def ErrorResponse_new_def document_lib_def cls_defs)
qed

subsection \<open>The error boundary of the receiver\<close>

lemma handler_raise_reaches_except:
  assumes "decode_message L (receiver_protocol r) msg = Inr msg_decoded"
      and "map_of (handlers r) (obj_type msg_decoded) = Some handler"
      and "call_fn handler bound_obj msg_decoded = Inl exc"
  shows "handle_try L r bound_obj msg = Inl exc"
  using assms decode_message_is_Message [OF assms(1)]
  by (simp add: handle_try_def)

text \<open>
  C2.  On a protocol whose type key is \<open>m\<close>, the storage name of
  \<open>ErrorResponse.error_message\<close>, the \<open>except\<close> clause cannot encode its
  \<open>ErrorResponse\<close>: the \<open>RuntimeError\<close> of the collision check in \<open>_encode\<close> leaves
  \<open>handle_raw_message\<close>, although the clause is there to return an \<open>ErrorResponse\<close>
  whenever anything goes wrong.  The input \<open>null\<close> fails the decode.
\<close>

theorem handle_raw_message_raises_on_key_collision:
  "MessageProtocol_init [] [] (Some ''m'') True True False = Inr keyed_protocol \<and>
   handle_raw_message document_lib
     \<lparr>receiver_protocol = keyed_protocol,
      handlers = ([] :: (cls \<times> unit handler_call) list)\<rparr> () JNull
     = ([''Error handling message.''], Inl RuntimeError)"
  using keyed_protocol_init
  by (simp add: handle_raw_message_def handle_try_def handle_except_def decode_message_def
        prot_decode_def document_lib_def keyed_protocol_def encode_response_def prot_encode_def
        dataclass_to_dict_def ErrorResponse_new_def cls_defs)

text \<open>
  Away from that collision the error boundary holds: on a protocol built by \<open>__init__\<close>
  whose type key is neither \<open>m\<close> nor \<open>t\<close>, \<open>handle_raw_message\<close> returns bytes for
  every input, and when anything fails inside the \<open>try\<close> these bytes are the encoding
  of an \<open>ErrorResponse\<close>.
\<close>

theorem handle_raw_message_returns_bytes:
  assumes init: "MessageProtocol_init message_types response_types tk pce lre ts
                   = Inr (receiver_protocol r)"
      and tk: "tk \<noteq> Some ''m''" "tk \<noteq> Some ''t''"
  shows "\<exists>data. snd (handle_raw_message L r bound_obj msg) = Inr data \<and>
           (\<forall>exc. handle_try L r bound_obj msg = Inl exc \<longrightarrow>
              (\<exists>text kind. encode_response L (receiver_protocol r)
                              (ErrorResponse_new text kind) = Inr data))"
proof (cases "handle_try L r bound_obj msg")
  case (Inr data)
  then show ?thesis by (simp add: handle_raw_message_def)
next
  case (Inl exc)
  let ?p = "receiver_protocol r"
  let ?text = "if is_CleanError exc \<and> preserve_clean_errors ?p then str_exn exc
               else if trusted_sender ?p then format_exc L exc
               else ''An unknown error has occurred.''"
  let ?kind = "if is_CleanError exc \<and> preserve_clean_errors ?p then CLEAN else OTHER"
  have res: "snd (handle_raw_message L r bound_obj msg)
               = encode_response L ?p (ErrorResponse_new ?text ?kind)"
    using Inl by (simp add: handle_raw_message_def handle_except_def)
  from encode_ErrorResponse_succeeds [OF init tk, of L ?text ?kind]
  obtain data where "encode_response L ?p (ErrorResponse_new ?text ?kind) = Inr data" ..
  with res Inl show ?thesis by auto
qed

theorem handle_raw_message_returns_bytes_example:
  "MessageProtocol_init [(1, Ping), (2, Shutdown)] [(1, Pong)] None True True False
     = Inr (receiver_protocol example_receiver) \<and>
   handle_try document_lib example_receiver () (JStr ''garbage'') = Inl AssertionError \<and>
   snd (handle_raw_message document_lib example_receiver () (JStr ''garbage''))
     = encode_response document_lib example_protocol
         (ErrorResponse_new ''An unknown error has occurred.'' OTHER) \<and>
   (\<exists>data. snd (handle_raw_message document_lib example_receiver () (JStr ''garbage''))
             = Inr data)"
proof -
  have i: "MessageProtocol_init [(1, Ping), (2, Shutdown)] [(1, Pong)] None True True False
     = Inr (receiver_protocol example_receiver)"
    using example_protocol_init by (simp add: example_receiver_def)
  have t: "handle_try document_lib example_receiver () (JStr ''garbage'') = Inl AssertionError"
    by (simp add: handle_try_def decode_message_def prot_decode_def document_lib_def
          example_receiver_def)
  have e: "snd (handle_raw_message document_lib example_receiver () (JStr ''garbage''))
     = encode_response document_lib example_protocol
         (ErrorResponse_new ''An unknown error has occurred.'' OTHER)"
    using t by (simp add: handle_raw_message_def handle_except_def example_receiver_def
                  example_protocol_def)
  from handle_raw_message_returns_bytes
         [OF i, of document_lib "()" "JStr ''garbage''"]
  have "\<exists>data. snd (handle_raw_message document_lib example_receiver () (JStr ''garbage''))
             = Inr data"
    by auto
  with i t e show ?thesis by simp
qed

text \<open>
  C3.  On a protocol whose type key is \<open>m\<close>, with \<open>preserve_clean_errors\<close> set, the
  handler of \<open>Shutdown\<close> raises \<open>CleanError('no permission')\<close>.  The \<open>except\<close> clause of
  \<open>handle_raw_message\<close> builds the \<open>ErrorResponse\<close> for it, but \<open>_encode\<close> refuses it
  with \<open>RuntimeError\<close> because its field \<open>error_message\<close> is stored under \<open>m\<close>; that
  \<open>RuntimeError\<close> leaves \<open>handle_raw_message\<close>, and \<open>send\<close> of the sender wired to this
  receiver raises \<open>RuntimeError\<close>, not the \<open>CleanError\<close> of the handler.
\<close>

theorem clean_error_lost_on_key_collision:
  "MessageProtocol_init [(2, Shutdown)] [] (Some ''m'') True True False
     = Inr keyed_shutdown_protocol \<and>
   sender_protocol keyed_sender = keyed_shutdown_protocol \<and>
   receiver_protocol keyed_receiver = keyed_shutdown_protocol \<and>
   preserve_clean_errors keyed_shutdown_protocol \<and>
   encode_message document_lib keyed_shutdown_protocol Shutdown_new
     = Inr (JDict [(''m'', JInt 2)]) \<and>
   decode_message document_lib keyed_shutdown_protocol (JDict [(''m'', JInt 2)])
     = Inr Shutdown_new \<and>
   map_of (handlers keyed_receiver) (obj_type Shutdown_new) = Some handle_shutdown \<and>
   call_fn handle_shutdown () Shutdown_new = Inl (CleanError ''no permission'') \<and>
   handle_try document_lib keyed_receiver () (JDict [(''m'', JInt 2)])
     = Inl (CleanError ''no permission'') \<and>
   handle_raw_message document_lib keyed_receiver () (JDict [(''m'', JInt 2)])
     = ([''Error handling message.''], Inl RuntimeError) \<and>
   send document_lib keyed_sender () Shutdown_new = Inl RuntimeError"
proof -
  let ?wire = "JDict [(''m'', JInt 2)]"
  have enc: "encode_message document_lib keyed_shutdown_protocol Shutdown_new = Inr ?wire"
    by (simp add: encode_message_def prot_encode_def keyed_shutdown_protocol_def
          Shutdown_new_def dataclass_to_dict_def document_lib_def cls_defs)
  have dec: "decode_message document_lib keyed_shutdown_protocol ?wire = Inr Shutdown_new"
    by (simp add: decode_message_def prot_decode_def decode_special_cases_def
          keyed_shutdown_protocol_def dataclass_from_dict_def document_lib_def Shutdown_new_def
          isinstance_def cls_defs)
  have h: "map_of (handlers keyed_receiver) (obj_type Shutdown_new) = Some handle_shutdown"
    by (simp add: keyed_receiver_def Shutdown_new_def)
  have r: "call_fn handle_shutdown () Shutdown_new = Inl (CleanError ''no permission'')"
    by (simp add: handle_shutdown_def)
  have p: "receiver_protocol keyed_receiver = keyed_shutdown_protocol"
    by (simp add: keyed_receiver_def)
  have t: "handle_try document_lib keyed_receiver () ?wire = Inl (CleanError ''no permission'')"
    using handler_raise_reaches_except [of document_lib keyed_receiver ?wire Shutdown_new
            handle_shutdown "()" "CleanError ''no permission''"] dec h r p
    by simp
  have e: "encode_response document_lib keyed_shutdown_protocol
             (ErrorResponse_new ''no permission'' CLEAN) = Inl RuntimeError"
    by (simp add: encode_response_def prot_encode_def keyed_shutdown_protocol_def
          ErrorResponse_new_def dataclass_to_dict_def cls_defs)
  have flags: "preserve_clean_errors keyed_shutdown_protocol"
              "log_remote_exceptions keyed_shutdown_protocol"
    by (simp_all add: keyed_shutdown_protocol_def)
  have b: "handle_raw_message document_lib keyed_receiver () ?wire
             = ([''Error handling message.''], Inl RuntimeError)"
    using t e p flags by (simp add: handle_raw_message_def handle_except_def)
  have s: "send document_lib keyed_sender () Shutdown_new = Inl RuntimeError"
    using enc b by (simp add: send_def keyed_sender_def)
  have sp: "sender_protocol keyed_sender = keyed_shutdown_protocol"
    by (simp add: keyed_sender_def)
  from keyed_shutdown_protocol_init sp p flags(1) enc dec h r t b s show ?thesis
    by simp
qed

text \<open>
  Away from that collision the error reaches the sender.  The sender's transport hands
  the bytes to \<open>handle_raw_message\<close> of a receiver on the same protocol, built by
  \<open>__init__\<close> with a type key that is neither \<open>m\<close> nor \<open>t\<close>.  When the handler of the
  decoded message raises, \<open>send\<close> raises \<open>CleanError\<close> with the text of the handler's
  exception if that was a \<open>CleanError\<close> and \<open>preserve_clean_errors\<close> is set, and
  \<open>RemoteError\<close> in every other case.
\<close>

theorem handler_error_reaches_sender:
  assumes init: "MessageProtocol_init message_types response_types tk pce lre ts = Inr p"
      and tk: "tk \<noteq> Some ''m''" "tk \<noteq> Some ''t''"
      and json: "\<forall>v. json_loads L (json_dumps L v) = Some v"
      and recv: "receiver_protocol r = p"
      and sndr: "sender_protocol s = p"
      and wired: "send_raw_message_call s =
                    Some (\<lambda>self data. snd (handle_raw_message L r receiver_obj data))"
      and enc: "encode_message L p message = Inr msg_encoded"
      and dec: "decode_message L p msg_encoded = Inr msg_decoded"
      and h: "map_of (handlers r) (obj_type msg_decoded) = Some handler"
      and raises: "call_fn handler receiver_obj msg_decoded = Inl exc"
  shows "send L s sender_obj message =
           Inl (if is_CleanError exc \<and> pce then CleanError (str_exn exc)
                else RemoteError (if ts then format_exc L exc
                                  else ''An unknown error has occurred.''))"
proof -
  note flags = init_flags(2,4) [OF init]
  from init recv have init': "MessageProtocol_init message_types response_types tk pce lre ts
                                = Inr (receiver_protocol r)"
    by simp
  from handle_raw_message_returns_bytes [OF init' tk, of L receiver_obj msg_encoded]
  obtain response_encoded
    where returned: "snd (handle_raw_message L r receiver_obj msg_encoded) = Inr response_encoded"
    by blast
  have tried: "handle_try L r receiver_obj msg_encoded = Inl exc"
    using handler_raise_reaches_except [of L r msg_encoded msg_decoded handler receiver_obj exc]
          dec h raises recv by simp
  show ?thesis
  proof (cases "is_CleanError exc \<and> pce")
    case True
    with tried returned recv flags
    have "encode_response L p (ErrorResponse_new (str_exn exc) CLEAN) = Inr response_encoded"
      by (simp add: handle_raw_message_def handle_except_def)
    from decode_encoded_ErrorResponse [OF init json this] True flags
    have "decode_response L p response_encoded = Inl (CleanError (str_exn exc))" by simp
    with True wired sndr enc returned show ?thesis by (simp add: send_def)
  next
    case False
    let ?text = "if ts then format_exc L exc else ''An unknown error has occurred.''"
    from False tried returned recv flags
    have "encode_response L p (ErrorResponse_new ?text OTHER) = Inr response_encoded"
      by (auto simp: handle_raw_message_def handle_except_def)
    from decode_encoded_ErrorResponse [OF init json this]
    have "decode_response L p response_encoded = Inl (RemoteError ?text)" by simp
    with False wired sndr enc returned show ?thesis by (auto simp: send_def)
  qed
qed

lemma encode_Shutdown_new:
  "encode_message document_lib example_protocol Shutdown_new
     = Inr (JDict [(''m'', JDict []), (''t'', JInt 2)])"
  by (simp add: encode_message_def prot_encode_def example_protocol_def Shutdown_new_def
        dataclass_to_dict_def document_lib_def cls_defs)

theorem handler_error_reaches_sender_example:
  "send document_lib example_sender () Shutdown_new = Inl (CleanError ''no permission'') \<and>
   send document_lib
     \<lparr>sender_protocol = example_protocol,
      send_raw_message_call =
        Some (\<lambda>self data. snd (handle_raw_message document_lib (crash_receiver False) () data))\<rparr>
     () Shutdown_new = Inl (RemoteError ''An unknown error has occurred.'')"
proof -
  let ?wire = "JDict [(''m'', JDict []), (''t'', JInt 2)]"
  have dec: "decode_message document_lib example_protocol ?wire = Inr Shutdown_new"
    using shutdown_wire_decodes [of False] by (simp add: example_protocol_def)
  have crash_p: "receiver_protocol (crash_receiver False) = example_protocol"
    by (simp add: crash_receiver_def example_protocol_def)
  have h1: "map_of (handlers example_receiver) (obj_type Shutdown_new) = Some handle_shutdown"
    by (simp add: example_receiver_def Shutdown_new_def cls_defs)
  have h2: "map_of (handlers (crash_receiver False)) (obj_type Shutdown_new)
              = Some handle_shutdown_crash"
    by (simp add: crash_receiver_def Shutdown_new_def)
  have r1: "call_fn handle_shutdown () Shutdown_new = Inl (CleanError ''no permission'')"
    by (simp add: handle_shutdown_def)
  have r2: "call_fn handle_shutdown_crash () Shutdown_new = Inl (OtherException ''secret'')"
    by (simp add: handle_shutdown_crash_def)
  have t1: "handle_try document_lib example_receiver () ?wire
              = Inl (CleanError ''no permission'')"
    using handler_raise_reaches_except [of document_lib example_receiver ?wire Shutdown_new
            handle_shutdown "()" "CleanError ''no permission''"] dec h1 r1
    by (simp add: example_receiver_def)
  have t2: "handle_try document_lib (crash_receiver False) () ?wire
              = Inl (OtherException ''secret'')"
    using handler_raise_reaches_except [of document_lib "crash_receiver False" ?wire
            Shutdown_new handle_shutdown_crash "()" "OtherException ''secret''"] dec h2 r2 crash_p
    by simp
  have b1: "snd (handle_raw_message document_lib example_receiver () ?wire)
              = Inr (JDict [(''m'', JDict [(''m'', JStr ''no permission''), (''t'', JInt 1)]),
                            (''t'', JInt (- 1))])"
    using t1 encode_ErrorResponse_no_permission
    by (simp add: handle_raw_message_def handle_except_def example_receiver_def
          example_protocol_def)
  have e2: "encode_response document_lib example_protocol
              (ErrorResponse_new ''An unknown error has occurred.'' OTHER)
            = Inr (JDict [(''m'', JDict [(''m'', JStr ''An unknown error has occurred.''),
                                        (''t'', JInt 0)]),
                          (''t'', JInt (- 1))])"
    by (simp add: encode_response_def prot_encode_def example_protocol_def
          ErrorResponse_new_def dataclass_to_dict_def document_lib_def cls_defs)
  have b2: "snd (handle_raw_message document_lib (crash_receiver False) () ?wire)
              = Inr (JDict [(''m'', JDict [(''m'', JStr ''An unknown error has occurred.''),
                                          (''t'', JInt 0)]),
                            (''t'', JInt (- 1))])"
    using t2 e2 crash_p
    by (simp add: handle_raw_message_def handle_except_def example_protocol_def)
  have s1: "sender_protocol example_sender = example_protocol"
    and w1: "send_raw_message_call example_sender =
               Some (\<lambda>self data. snd (handle_raw_message document_lib example_receiver () data))"
    by (simp_all add: example_sender_def)
  have p1: "receiver_protocol example_receiver = example_protocol"
    by (simp add: example_receiver_def)
  have 1: "send document_lib example_sender () Shutdown_new
             = Inl (CleanError ''no permission'')"
    using handler_error_reaches_sender
            [OF example_protocol_init _ _ document_lib_roundtrip p1 s1 w1 encode_Shutdown_new
                dec h1 r1, of "()"]
    by simp
  let ?s2 = "\<lparr>sender_protocol = example_protocol,
      send_raw_message_call =
        Some (\<lambda>self data. snd (handle_raw_message document_lib (crash_receiver False) () data))\<rparr>"
  have s2: "sender_protocol ?s2 = example_protocol"
    and w2: "send_raw_message_call ?s2 =
        Some (\<lambda>self data. snd (handle_raw_message document_lib (crash_receiver False) () data))"
    by simp_all
  have 2: "send document_lib ?s2 () Shutdown_new
             = Inl (RemoteError ''An unknown error has occurred.'')"
    using handler_error_reaches_sender
            [OF example_protocol_init _ _ document_lib_roundtrip crash_p s2 w2 encode_Shutdown_new
                dec h2 r2, of "()"]
    by simp
  from 1 2 show ?thesis by simp
qed

end
